theory Spec2Isabelle
  imports Main "HOL-Library.Word"
begin

section \<open>JavaScript values\<close>

text \<open>
  Every value the client reads from the wire is the result of \<^verbatim>\<open>JSON.parse\<close>, and every
  frame it writes is the argument of \<^verbatim>\<open>JSON.stringify\<close>. A parsed object is its list of
  properties (keys distinct, as \<^verbatim>\<open>JSON.parse\<close> leaves them). Numbers are restricted to the
  integers. A JavaScript value is a \<open>json option\<close>: \<open>None\<close> is \<^verbatim>\<open>undefined\<close>, which is
  what reading a missing property gives.
\<close>

datatype json =
    JNull
  | JBool bool
  | JNum int
  | JStr string
  | JArr "json list"
  | JObj "(string \<times> json) list"

type_synonym js = "json option"

text \<open>
  Everything the code throws or rejects with. \<open>Exception\<close> stands for whatever a
  collaborator throws (a listener, a helper of the runtime).
\<close>

datatype error =
    TypeError
  | Exception string
  | NoApiKey
  | InvalidURL
  | SocketSyntaxError
  | TransportError "string option"
  | ClosedDuringConnect int string
  | MissingToolId
  | MissingToolOutput
  | WsNull
  | WsNotOpen
  | FailedToSend error

text \<open>JavaScript's ToBoolean, as \<^verbatim>\<open>if (v)\<close>, \<^verbatim>\<open>!v\<close> and \<^verbatim>\<open>a && b\<close> apply it.\<close>

fun truthy :: "js \<Rightarrow> bool" where
  "truthy None = False"
| "truthy (Some JNull) = False"
| "truthy (Some (JBool b)) = b"
| "truthy (Some (JNum n)) = (n \<noteq> 0)"
| "truthy (Some (JStr s)) = (s \<noteq> [])"
| "truthy (Some (JArr xs)) = True"
| "truthy (Some (JObj kvs)) = True"

text \<open>
  Reading a property \<^verbatim>\<open>v.k\<close> of a value that is not \<^verbatim>\<open>null\<close>: an object gives the
  property or \<^verbatim>\<open>undefined\<close>; a boolean, a number, a string and an array have none of the
  property names this program reads.
\<close>

fun field :: "json \<Rightarrow> string \<Rightarrow> js" where
  "field (JObj kvs) k = map_of kvs k"
| "field v k = None"

text \<open>Reading \<^verbatim>\<open>v.k\<close> of any value: \<^verbatim>\<open>null\<close> and \<^verbatim>\<open>undefined\<close> throw a TypeError.\<close>

fun get_prop :: "js \<Rightarrow> string \<Rightarrow> error + js" where
  "get_prop None k = Inl TypeError"
| "get_prop (Some JNull) k = Inl TypeError"
| "get_prop (Some v) k = Inr (field v k)"

text \<open>Optional chaining \<^verbatim>\<open>v?.k\<close>.\<close>

fun opt_chain :: "js \<Rightarrow> string \<Rightarrow> js" where
  "opt_chain None k = None"
| "opt_chain (Some JNull) k = None"
| "opt_chain (Some v) k = field v k"

text \<open>\<^verbatim>\<open>s.startsWith(pre)\<close> on strings.\<close>

definition startsWith :: "string \<Rightarrow> string \<Rightarrow> bool" where
  "startsWith s pre = (take (length pre) s = pre)"

text \<open>
  \<^verbatim>\<open>Array.prototype.filter\<close> with a callback that may throw: the first exception aborts
  the filter.
\<close>

fun filter_js :: "(json \<Rightarrow> error + bool) \<Rightarrow> json list \<Rightarrow> error + json list" where
  "filter_js f [] = Inr []"
| "filter_js f (x # xs) =
     (case f x of
        Inl e \<Rightarrow> Inl e
      | Inr b \<Rightarrow>
          (case filter_js f xs of
             Inl e \<Rightarrow> Inl e
           | Inr ys \<Rightarrow> Inr (if b then x # ys else ys)))"

section \<open>The event emitter (src/js/utils/event-emitter.js)\<close>

text \<open>
  A listener is a JavaScript function: called with the arguments of the publication it
  changes the state of the program around the emitter (\<open>'s\<close>) and either returns
  (\<open>None\<close>) or throws (\<open>Some e\<close>); what it did before throwing stays done.
  \<^verbatim>\<open>_events\<close> is a plain object used as a dictionary from event names to arrays.
\<close>

type_synonym ('a, 's) listener = "'a \<Rightarrow> 's \<Rightarrow> error option \<times> 's"

type_synonym ('a, 's) emitter = "string \<rightharpoonup> ('a, 's) listener list"

text \<open>\<^verbatim>\<open>constructor() { this._events = {}; }\<close>\<close>

definition new_emitter :: "('a, 's) emitter" where
  "new_emitter = Map.empty"

text \<open>
  \<^verbatim>\<open>{}\<close> inherits from \<^verbatim>\<open>Object.prototype\<close>: for these names \<^verbatim>\<open>this._events[event]\<close> is
  an inherited function or object, truthy and not an array, whatever was registered.
\<close>

definition object_prototype_keys :: "string list" where
  "object_prototype_keys =
     [''constructor'', ''hasOwnProperty'', ''isPrototypeOf'', ''propertyIsEnumerable'',
      ''toLocaleString'', ''toString'', ''valueOf'', ''__proto__'',
      ''__defineGetter__'', ''__defineSetter__'', ''__lookupGetter__'', ''__lookupSetter__'']"

text \<open>
  \<^verbatim>\<open>on(event, listener)\<close>: creates the array on first use and pushes the listener at its
  end. For an inherited name the array is never created and \<^verbatim>\<open>push\<close> is not a function.
\<close>

definition on :: "string \<Rightarrow> ('a, 's) listener \<Rightarrow> ('a, 's) emitter \<Rightarrow> error + ('a, 's) emitter" where
  "on event listener' ev =
     (if event \<in> set object_prototype_keys then Inl TypeError
      else Inr (ev(event \<mapsto> (case ev event of None \<Rightarrow> [] | Some ls \<Rightarrow> ls) @ [listener'])))"

text \<open>
  \<^verbatim>\<open>this._events[event].forEach(listener => listener.apply(this, args))\<close>: the listeners
  are called one after the other from the front of the array; there is no \<^verbatim>\<open>try\<close>, so an
  exception leaves \<^verbatim>\<open>forEach\<close> at once.
\<close>

fun forEach_listener :: "('a, 's) listener list \<Rightarrow> 'a \<Rightarrow> 's \<Rightarrow> error option \<times> 's" where
  "forEach_listener [] args s = (None, s)"
| "forEach_listener (l # ls) args s =
     (case l args s of
        (Some e, s') \<Rightarrow> (Some e, s')
      | (None, s') \<Rightarrow> forEach_listener ls args s')"

text \<open>
  \<^verbatim>\<open>emit(event, ...args)\<close> returns \<^verbatim>\<open>false\<close> when nothing was ever registered for the
  name, \<^verbatim>\<open>true\<close> after the listeners have run, and throws what a listener throws.
\<close>

definition emit :: "string \<Rightarrow> 'a \<Rightarrow> ('a, 's) emitter \<Rightarrow> 's \<Rightarrow> (error + bool) \<times> 's" where
  "emit event args ev s =
     (if event \<in> set object_prototype_keys then (Inl TypeError, s)
      else
        (case ev event of
           None \<Rightarrow> (Inr False, s)
         | Some ls \<Rightarrow>
             (case forEach_listener ls args s of
                (Some e, s') \<Rightarrow> (Inl e, s')
              | (None, s') \<Rightarrow> (Inr True, s'))))"

text \<open>Registering a list of listeners for one name, in the order of the list.\<close>

fun on_all :: "string \<Rightarrow> ('a, 's) listener list \<Rightarrow> ('a, 's) emitter \<Rightarrow> error + ('a, 's) emitter" where
  "on_all event [] ev = Inr ev"
| "on_all event (l # ls) ev =
     (case on event l ev of Inl e \<Rightarrow> Inl e | Inr ev' \<Rightarrow> on_all event ls ev')"

section \<open>The session client (src/.history/js/ws/client_20250406060402.js)\<close>

subsection \<open>The world the client runs in\<close>

text \<open>
  A WebSocket is an object shared by the client (\<^verbatim>\<open>this.ws\<close>), by the closures of its four
  listeners and by the browser; it lives in a store (\<open>sockets\<close>) and is named by its
  index there. \<open>target\<close> is the address it was created for, \<open>sent\<close> what \<^verbatim>\<open>ws.send\<close> was
  given (the values that were stringified), and \<open>settles\<close> the promise whose
  \<^verbatim>\<open>resolve\<close> and \<^verbatim>\<open>reject\<close> its listeners close over.
\<close>

datatype ready_state = CONNECTING | OPEN | CLOSING | CLOSED

record socket =
  target :: string
  readyState :: ready_state
  sent :: "json list"
  settles :: nat

datatype promise_state = Pending | Fulfilled | Rejected error

datatype level = Debug | Info | Warn | Err

text \<open>The template strings the client publishes, by their template and arguments.\<close>

datatype message =
    NoKeyMsg
  | InvalidUrlMsg
  | CouldNotConnectMsg string string
  | AuthFailedMsg int string

text \<open>The arguments of one \<^verbatim>\<open>this.emit(event, ...)\<close>.\<close>

datatype payload =
    NoArgs
  | Value js
  | Bytes "8 word list"
  | Text message

text \<open>
  The client extends the event emitter. Its state is the fields the two constructors
  set (\<open>name\<close> to \<open>isSetupComplete\<close>, and \<open>events\<close> for \<^verbatim>\<open>_events\<close>), followed by what it
  acts on: the sockets and promises it has created, the \<^verbatim>\<open>deepgramApiKey\<close> entry of
  \<^verbatim>\<open>localStorage\<close>, the console, and \<open>app\<close>, the state of the application, which is what
  the registered listeners read and change. \<open>emitted\<close> keeps the calls of \<^verbatim>\<open>this.emit\<close> in
  order; the code has no such field. A listener acts on \<open>app\<close> only: one that calls a
  method of the client while it is being called is not described.
\<close>

record 's world =
  name :: string
  url :: string
  ws :: "nat option"
  config :: json
  isConnecting :: bool
  connectionPromise :: "nat option"
  isSetupComplete :: bool
  events :: "(payload, 's) emitter"
  sockets :: "socket list"
  promises :: "promise_state list"
  localStorage :: "string option"
  console :: "(level \<times> string) list"
  emitted :: "(string \<times> payload) list"
  app :: 's

text \<open>
  What the client imports and what it takes from the browser:
  \<^verbatim>\<open>blobToJSON\<close> and \<^verbatim>\<open>base64ToArrayBuffer\<close> of utils.js (either may fail),
  \<open>buildURL base key\<close> for \<^verbatim>\<open>new URL(base)\<close> with the \<^verbatim>\<open>key\<close> parameter set, printed
  (\<open>None\<close> when \<^verbatim>\<open>new URL\<close> throws), and whether \<^verbatim>\<open>new WebSocket(address)\<close> accepts the
  address or throws.
\<close>

record platform =
  blobToJSON :: "string \<Rightarrow> error + json"
  base64ToArrayBuffer :: "js \<Rightarrow> error + 8 word list"
  buildURL :: "string \<Rightarrow> string \<Rightarrow> string option"
  webSocketAccepts :: "string \<Rightarrow> bool"

definition log :: "level \<Rightarrow> string \<Rightarrow> 's world \<Rightarrow> 's world" where
  "log lvl msg w = w\<lparr>console := console w @ [(lvl, msg)]\<rparr>"

text \<open>
  \<^verbatim>\<open>this.emit(event, args)\<close> is the \<open>emit\<close> of the emitter, on the client's own \<^verbatim>\<open>_events\<close>:
  the listeners run on the application's state, and an exception of a listener comes
  out of the call. The result is that exception, if any.
\<close>

definition this_emit :: "string \<Rightarrow> payload \<Rightarrow> 's world \<Rightarrow> error option \<times> 's world" where
  "this_emit event args w =
     (case emit event args (events w) (app w) of
        (r, s') \<Rightarrow>
          ((case r of Inl e \<Rightarrow> Some e | Inr b \<Rightarrow> None),
           w\<lparr>app := s', emitted := emitted w @ [(event, args)]\<rparr>))"

text \<open>\<^verbatim>\<open>this.on(event, listener)\<close>; where \<open>on\<close> throws, nothing is registered.\<close>

definition this_on :: "string \<Rightarrow> (payload, 's) listener \<Rightarrow> 's world \<Rightarrow> 's world" where
  "this_on event listener' w =
     (case on event listener' (events w) of Inl e \<Rightarrow> w | Inr ev \<Rightarrow> w\<lparr>events := ev\<rparr>)"

text \<open>
  Statements in sequence: \<open>then_do r f\<close> goes on with \<open>f\<close> in the world the first
  statement left when it returned, and stops there when it threw.
\<close>

definition then_do ::
  "error option \<times> 's world \<Rightarrow> ('s world \<Rightarrow> error option \<times> 's world) \<Rightarrow> error option \<times> 's world" where
  "then_do r f = (case r of (Some e, w') \<Rightarrow> (Some e, w') | (None, w') \<Rightarrow> f w')"

definition socket_at :: "'s world \<Rightarrow> nat \<Rightarrow> socket option" where
  "socket_at w i = (if i < length (sockets w) then Some (sockets w ! i) else None)"

definition promise_at :: "'s world \<Rightarrow> nat \<Rightarrow> promise_state option" where
  "promise_at w i = (if i < length (promises w) then Some (promises w ! i) else None)"

text \<open>\<^verbatim>\<open>resolve\<close> and \<^verbatim>\<open>reject\<close>: only a pending promise is settled.\<close>

definition settle :: "nat \<Rightarrow> promise_state \<Rightarrow> 's world \<Rightarrow> 's world" where
  "settle i outcome w =
     (if promise_at w i = Some Pending then w\<lparr>promises := (promises w)[i := outcome]\<rparr> else w)"

text \<open>\<^verbatim>\<open>ws.close()\<close>: a socket that is connecting or open starts closing.\<close>

definition ws_close :: "nat \<Rightarrow> 's world \<Rightarrow> 's world" where
  "ws_close i w =
     (case socket_at w i of
        None \<Rightarrow> w
      | Some sk \<Rightarrow>
          (if readyState sk = CLOSING \<or> readyState sk = CLOSED then w
           else w\<lparr>sockets := (sockets w)[i := sk\<lparr>readyState := CLOSING\<rparr>]\<rparr>))"

text \<open>\<^verbatim>\<open>ws.send(JSON.stringify(json))\<close> on an open socket.\<close>

definition ws_send :: "nat \<Rightarrow> json \<Rightarrow> 's world \<Rightarrow> 's world" where
  "ws_send i j w =
     (case socket_at w i of
        None \<Rightarrow> w
      | Some sk \<Rightarrow> w\<lparr>sockets := (sockets w)[i := sk\<lparr>sent := sent sk @ [j]\<rparr>]\<rparr>)"

text \<open>
  The constructor, in a world where nothing has been created yet; \<open>key\<close> is the
  \<^verbatim>\<open>deepgramApiKey\<close> entry of \<^verbatim>\<open>localStorage\<close> and \<open>s\<close> the state of the application.
\<close>

definition constructor :: "string \<Rightarrow> string \<Rightarrow> json \<Rightarrow> string option \<Rightarrow> 's \<Rightarrow> 's world" where
  "constructor name' url' config' key s =
     \<lparr>name = (if name' = [] then ''WebSocketClient'' else name'),
      url = url',
      ws = None,
      config = config',
      isConnecting = False,
      connectionPromise = None,
      isSetupComplete = False,
      events = new_emitter,
      sockets = [],
      promises = [],
      localStorage = key,
      console = [],
      emitted = [],
      app = s\<rparr>"

subsection \<open>sendJSON and disconnect\<close>

text \<open>
  \<^verbatim>\<open>async sendJSON(json)\<close>: the guard on \<^verbatim>\<open>_isSetupComplete\<close> comes first; an error
  thrown inside \<^verbatim>\<open>try\<close> is caught, logged and rethrown wrapped. The result is the
  rejection of the returned promise, if any.
\<close>

definition sendJSON :: "json \<Rightarrow> 's world \<Rightarrow> error option \<times> 's world" where
  "sendJSON j w =
     (if \<not> isSetupComplete w
      then (None, log Warn ''Attempted to send JSON before setup completed.'' w)
      else
        (case ws w of
           None \<Rightarrow>
             (Some (FailedToSend WsNull),
              log Err ''Error sending message''
                (log Err ''WebSocket is null. Cannot send message'' w))
         | Some i \<Rightarrow>
             (if map_option readyState (socket_at w i) \<noteq> Some OPEN
              then
                (Some (FailedToSend WsNotOpen),
                 log Err ''Error sending message''
                   (log Err ''WebSocket is not open. Cannot send message'' w))
              else (None, log Debug ''JSON Object was sent'' (ws_send i j w)))))"

definition disconnect :: "'s world \<Rightarrow> 's world" where
  "disconnect w =
     (case ws w of
        None \<Rightarrow> w
      | Some i \<Rightarrow>
          log Info ''successfully disconnected from websocket''
            ((ws_close i w)\<lparr>ws := None, isConnecting := False, connectionPromise := None\<rparr>))"

subsection \<open>connect and the four listeners\<close>

text \<open>
  What \<^verbatim>\<open>async connect()\<close> returns: a promise that takes the state of
  \<^verbatim>\<open>this.connectionPromise\<close> (fulfilled at once when that is \<^verbatim>\<open>null\<close>), or one that is
  rejected.
\<close>

datatype connect_result = Adopts "nat option" | Rejects error

definition connect_outcome :: "'s world \<Rightarrow> connect_result \<Rightarrow> promise_state option" where
  "connect_outcome w r =
     (case r of
        Rejects e \<Rightarrow> Some (Rejected e)
      | Adopts None \<Rightarrow> Some Fulfilled
      | Adopts (Some i) \<Rightarrow> promise_at w i)"

text \<open>
  \<^verbatim>\<open>this.emit('error', ...)\<close> followed by \<^verbatim>\<open>return Promise.reject(e)\<close>: when a listener
  throws, the promise of the \<^verbatim>\<open>async\<close> method is rejected with the listener's exception.
\<close>

definition emit_error_and_reject ::
  "message \<Rightarrow> error \<Rightarrow> 's world \<Rightarrow> connect_result \<times> 's world" where
  "emit_error_and_reject msg e w =
     (case this_emit ''error'' (Text msg) w of
        (Some thrown, w') \<Rightarrow> (Rejects thrown, w')
      | (None, w') \<Rightarrow> (Rejects e, w'))"

definition connect :: "platform \<Rightarrow> 's world \<Rightarrow> connect_result \<times> 's world" where
  "connect p w =
     (if Option.bind (ws w) (\<lambda>i. map_option readyState (socket_at w i)) = Some OPEN
      then (Adopts (connectionPromise w), w)
      else if isConnecting w then (Adopts (connectionPromise w), w)
      else
        (case localStorage w of
           None \<Rightarrow>
             emit_error_and_reject NoKeyMsg NoApiKey (log Err ''No Deepgram API key provided'' w)
         | Some apiKey \<Rightarrow>
             (if apiKey = []
              then
                emit_error_and_reject NoKeyMsg NoApiKey
                  (log Err ''No Deepgram API key provided'' w)
              else
                (case buildURL p (url w) apiKey of
                   None \<Rightarrow>
                     emit_error_and_reject InvalidUrlMsg InvalidURL
                       (log Err ''Invalid WebSocket URL:'' w)
                 | Some wsUrl \<Rightarrow>
                     (let w1 = (log Info ''Establishing WebSocket connection...'' w)
                                 \<lparr>isConnecting := True\<rparr>;
                          pid = length (promises w1)
                      in
                        (if webSocketAccepts p wsUrl
                         then
                           (Adopts (Some pid),
                            w1\<lparr>sockets := sockets w1 @
                                  [\<lparr>target = wsUrl, readyState = CONNECTING, sent = [],
                                    settles = pid\<rparr>],
                                promises := promises w1 @ [Pending],
                                connectionPromise := Some pid\<rparr>)
                         else
                           (Adopts (Some pid),
                            w1\<lparr>promises := promises w1 @ [Rejected SocketSyntaxError],
                                connectionPromise := Some pid\<rparr>)))))))"

text \<open>
  The listener of \<^verbatim>\<open>open\<close>, for the socket \<open>i\<close> and the promise \<open>pid\<close> of its closure.
  \<^verbatim>\<open>this.sendJSON\<close> is not awaited: its rejection, if any, goes nowhere.
\<close>

definition open_listener :: "nat \<Rightarrow> nat \<Rightarrow> 's world \<Rightarrow> 's world" where
  "open_listener i pid w =
     (let w1 = log Info ''Successfully connected to websocket'' w;
          w2 = w1\<lparr>ws := Some i, isConnecting := False\<rparr>;
          w3 = snd (sendJSON (JObj [(''setup'', config w2)]) w2);
          w4 = log Debug ''Setup message with the following configuration was sent:'' w3
      in settle pid Fulfilled w4)"

text \<open>
  The listener of \<^verbatim>\<open>error\<close>; \<open>reason\<close> is \<^verbatim>\<open>error.reason\<close>. An exception of a listener of
  the \<open>error\<close> event leaves the listener of the socket before \<^verbatim>\<open>reject(error)\<close>; the browser
  reports it and nothing else happens.
\<close>

definition could_not_connect :: "socket \<Rightarrow> string option \<Rightarrow> payload" where
  "could_not_connect sk reason =
     Text (CouldNotConnectMsg (target sk)
        (case reason of None \<Rightarrow> ''Unknown'' | Some r \<Rightarrow> if r = [] then ''Unknown'' else r))"

definition error_listener :: "nat \<Rightarrow> string option \<Rightarrow> 's world \<Rightarrow> 's world" where
  "error_listener i reason w =
     (case socket_at w i of
        None \<Rightarrow> w
      | Some sk \<Rightarrow>
          (let w1 = disconnect w;
               w2 = log Err ''Could not connect'' w1
           in
             (case this_emit ''error'' (could_not_connect sk reason) w2 of
                (Some thrown, w3) \<Rightarrow> w3
              | (None, w3) \<Rightarrow> settle (settles sk) (Rejected (TransportError reason)) w3)))"

text \<open>
  \<^verbatim>\<open>/auth|token|key/i.test(reason)\<close>. Strings are lists of 8-bit characters, among which
  only the ASCII capitals fold onto the letters of the pattern.
\<close>

definition ascii_lower :: "char \<Rightarrow> char" where
  "ascii_lower c =
     (let n = (of_char c :: nat) in if 65 \<le> n \<and> n \<le> 90 then char_of (n + 32) else c)"

fun includes_sub :: "string \<Rightarrow> string \<Rightarrow> bool" where
  "includes_sub [] sub = (sub = [])"
| "includes_sub (c # cs) sub = (startsWith (c # cs) sub \<or> includes_sub cs sub)"

definition auth_pattern :: "string \<Rightarrow> bool" where
  "auth_pattern reason =
     (let r = map ascii_lower reason
      in includes_sub r ''auth'' \<or> includes_sub r ''token'' \<or> includes_sub r ''key'')"

definition authFailure :: "int \<Rightarrow> string \<Rightarrow> bool" where
  "authFailure code reason =
     (code \<in> set [4001, 4003, 1008] \<or> (reason \<noteq> [] \<and> auth_pattern reason))"

text \<open>
  The listener of \<^verbatim>\<open>close\<close>, for the promise \<open>pid\<close> of its closure. An exception of a
  listener of \<open>auth_failed\<close>, \<open>error\<close> or \<open>disconnected\<close> leaves it at that \<^verbatim>\<open>this.emit\<close>:
  what follows, the next publication and the rejection of the promise, is not reached.
\<close>

definition disconnected_info :: "int \<Rightarrow> string \<Rightarrow> bool \<Rightarrow> payload" where
  "disconnected_info code reason wasClean =
     Value (Some (JObj [(''code'', JNum code), (''reason'', JStr reason),
                        (''wasClean'', JBool wasClean)]))"

definition close_listener :: "nat \<Rightarrow> int \<Rightarrow> string \<Rightarrow> bool \<Rightarrow> 's world \<Rightarrow> 's world" where
  "close_listener pid code reason wasClean w =
     (let w1 = log Warn ''WebSocket connection closed.'' w;
          w2 = disconnect w1
      in
        (case (if authFailure code reason
               then then_do
                      (this_emit ''auth_failed'' (Text (AuthFailedMsg code reason))
                         (log Err ''Authentication failed.'' w2))
                      (this_emit ''error'' (Text (AuthFailedMsg code reason)))
               else this_emit ''disconnected'' (disconnected_info code reason wasClean) w2) of
           (Some thrown, w3) \<Rightarrow> w3
         | (None, w3) \<Rightarrow>
             (if isConnecting w3
              then settle pid (Rejected (ClosedDuringConnect code reason))
                     (w3\<lparr>isConnecting := False\<rparr>)
              else w3)))"

subsection \<open>receive\<close>

text \<open>The two callbacks of \<^verbatim>\<open>parts.filter\<close>: \<^verbatim>\<open>(p) => p.text\<close> and
  \<^verbatim>\<open>(p) => p.inlineData && p.inlineData.mimeType.startsWith('audio/pcm')\<close>.\<close>

definition is_text :: "json \<Rightarrow> error + bool" where
  "is_text p = (case get_prop (Some p) ''text'' of Inl e \<Rightarrow> Inl e | Inr t \<Rightarrow> Inr (truthy t))"

definition is_audio :: "json \<Rightarrow> error + bool" where
  "is_audio p =
     (case get_prop (Some p) ''inlineData'' of
        Inl e \<Rightarrow> Inl e
      | Inr d \<Rightarrow>
          (if truthy d
           then
             (case get_prop d ''mimeType'' of
                Inl e \<Rightarrow> Inl e
              | Inr m \<Rightarrow>
                  (case m of
                     Some (JStr s) \<Rightarrow> Inr (startsWith s ''audio/pcm'')
                   | _ \<Rightarrow> Inl TypeError))
           else Inr False))"

text \<open>\<^verbatim>\<open>textParts.forEach((p) => { this.emit('text', p.text); })\<close>: an exception of a
  listener leaves \<^verbatim>\<open>forEach\<close>.\<close>

fun forEach_text :: "json list \<Rightarrow> 's world \<Rightarrow> error option \<times> 's world" where
  "forEach_text [] w = (None, w)"
| "forEach_text (t # rest) w =
     (case this_emit ''text'' (Value (field t ''text'')) w of
        (Some e, w') \<Rightarrow> (Some e, w')
      | (None, w') \<Rightarrow> forEach_text rest w')"

text \<open>\<^verbatim>\<open>base64s.forEach((b64) => { if (b64) { ... this.emit('audio', data); } })\<close>\<close>

fun forEach_base64 :: "platform \<Rightarrow> js list \<Rightarrow> 's world \<Rightarrow> error option \<times> 's world" where
  "forEach_base64 p [] w = (None, w)"
| "forEach_base64 p (b64 # rest) w =
     (if truthy b64
      then
        (case base64ToArrayBuffer p b64 of
           Inl e \<Rightarrow> (Some e, w)
         | Inr data \<Rightarrow>
             (case this_emit ''audio'' (Bytes data) w of
                (Some e, w') \<Rightarrow> (Some e, w')
              | (None, w') \<Rightarrow> forEach_base64 p rest w'))
      else forEach_base64 p rest w)"

text \<open>
  An exception inside an \<^verbatim>\<open>async\<close> method ends the method with what it has done so
  far: \<open>or_throw w r f\<close> goes on with \<open>f\<close> when \<open>r\<close> is a value and stops in the world
  \<open>w\<close> when \<open>r\<close> is an exception.
\<close>

definition or_throw ::
  "'s world \<Rightarrow> error + 'a \<Rightarrow> ('a \<Rightarrow> error option \<times> 's world) \<Rightarrow> error option \<times> 's world" where
  "or_throw w r f = (case r of Inl e \<Rightarrow> (Some e, w) | Inr x \<Rightarrow> f x)"

text \<open>\<^verbatim>\<open>parts.filter\<close> is a function only when \<open>parts\<close> is an array.\<close>

definition as_array :: "js \<Rightarrow> error + json list" where
  "as_array v = (case v of Some (JArr xs) \<Rightarrow> Inr xs | _ \<Rightarrow> Inl TypeError)"

text \<open>
  The body of \<^verbatim>\<open>if (serverContent.modelTurn)\<close>. \<^verbatim>\<open>audioParts.includes(p)\<close> compares
  objects by identity; a part is in \<open>audioParts\<close> exactly when the callback selected it,
  and the callback reads only the part's content, so comparing contents selects the same
  parts.
\<close>

definition model_turn :: "platform \<Rightarrow> js \<Rightarrow> 's world \<Rightarrow> error option \<times> 's world" where
  "model_turn p modelTurn w =
     or_throw w (get_prop modelTurn ''parts'') (\<lambda>parts.
     or_throw w (as_array parts) (\<lambda>ps.
     or_throw w (filter_js is_text ps) (\<lambda>textParts.
     then_do (forEach_text textParts w) (\<lambda>w1.
     or_throw w1 (filter_js is_audio ps) (\<lambda>audioParts.
       (let base64s = map (\<lambda>a. opt_chain (field a ''inlineData'') ''data'') audioParts;
            otherParts = filter (\<lambda>q. q \<notin> set audioParts) ps
        in
          then_do (forEach_base64 p base64s w1) (\<lambda>w2.
            if otherParts \<noteq> []
            then then_do
                   (this_emit ''content''
                      (Value (Some (JObj [(''modelTurn'', JObj [(''parts'', JArr otherParts)])])))
                      w2)
                   (\<lambda>w3. (None, log Debug ''sent:'' w3))
            else (None, w2))))))))"

text \<open>The body of \<^verbatim>\<open>if (response.serverContent)\<close>.\<close>

definition server_content :: "platform \<Rightarrow> js \<Rightarrow> 's world \<Rightarrow> error option \<times> 's world" where
  "server_content p serverContent w =
     or_throw w (get_prop serverContent ''interrupted'') (\<lambda>interrupted.
       if truthy interrupted
       then this_emit ''interrupted'' NoArgs (log Debug ''is interrupted'' w)
       else
         or_throw w (get_prop serverContent ''turnComplete'') (\<lambda>turnComplete.
         then_do
           (if truthy turnComplete
            then this_emit ''turn_complete'' NoArgs (log Debug ''has completed its turn'' w)
            else (None, w))
           (\<lambda>w1.
              or_throw w1 (get_prop serverContent ''modelTurn'') (\<lambda>modelTurn.
                if truthy modelTurn then model_turn p modelTurn w1 else (None, w1)))))"

text \<open>
  \<^verbatim>\<open>async receive(blob)\<close>, from the decoded response on: the only \<^verbatim>\<open>await\<close> is the
  decoding, and what follows it runs in one piece. After \<^verbatim>\<open>response.toolCall\<close> has been
  read without a TypeError the response is not \<^verbatim>\<open>null\<close>, and its other properties are
  read with \<open>field\<close>.
\<close>

definition receive_response :: "platform \<Rightarrow> json \<Rightarrow> 's world \<Rightarrow> error option \<times> 's world" where
  "receive_response p response w =
     (case get_prop (Some response) ''toolCall'' of
        Inl e \<Rightarrow> (Some e, w)
      | Inr toolCall \<Rightarrow>
          (if truthy toolCall
           then this_emit ''tool_call'' (Value toolCall) (log Debug ''received tool call'' w)
           else if truthy (field response ''setupComplete'')
           then this_emit ''setupComplete'' NoArgs (w\<lparr>isSetupComplete := True\<rparr>)
           else if truthy (field response ''toolCallCancellation'')
           then
             this_emit ''tool_call_cancellation'' (Value (field response ''toolCallCancellation''))
               (log Debug ''received tool call cancellation'' w)
           else if truthy (field response ''serverContent'')
           then server_content p (field response ''serverContent'') w
           else (None, log Debug ''received unmatched message:'' w)))"

definition receive :: "platform \<Rightarrow> string \<Rightarrow> 's world \<Rightarrow> error option \<times> 's world" where
  "receive p blob w =
     (case blobToJSON p blob of
        Inl e \<Rightarrow> (Some e, w)
      | Inr response \<Rightarrow> receive_response p response w)"

text \<open>The listener of \<^verbatim>\<open>message\<close>: \<^verbatim>\<open>event.data\<close> is a Blob (its content) or something else.
  \<^verbatim>\<open>this.receive\<close> is not awaited.\<close>

datatype message_data = Blob string | NotBlob

definition message_listener :: "platform \<Rightarrow> message_data \<Rightarrow> 's world \<Rightarrow> 's world" where
  "message_listener p d w =
     (case d of
        Blob b \<Rightarrow> snd (receive p b w)
      | NotBlob \<Rightarrow> log Err ''Non-blob message received'' w)"

subsection \<open>The four send operations\<close>

text \<open>
  Each is an \<^verbatim>\<open>async\<close> method; the result is the rejection of the promise it returns, if
  any. \<open>sendJSON\<close> has no \<^verbatim>\<open>await\<close> in it, so it has run to its end when the \<^verbatim>\<open>await\<close>
  of the calling method suspends; what follows that \<^verbatim>\<open>await\<close> is one console line. A
  call is therefore one step. The arguments are strings, as the documentation comments
  declare them (\<open>endOfTurn\<close> is passed explicitly); the tool response is any value.
\<close>

definition sendAudio :: "string \<Rightarrow> 's world \<Rightarrow> error option \<times> 's world" where
  "sendAudio base64audio w =
     (if \<not> isSetupComplete w
      then (None, log Warn ''Attempted to send audio before setup completed.'' w)
      else
        (case sendJSON
                (JObj [(''realtimeInput'',
                   JObj [(''mediaChunks'',
                     JArr [JObj [(''mimeType'', JStr ''audio/pcm''),
                                 (''data'', JStr base64audio)]])])]) w of
           (Some e, w') \<Rightarrow> (Some e, w')
         | (None, w') \<Rightarrow> (None, log Debug ''Sending audio chunk'' w')))"

definition sendImage :: "string \<Rightarrow> 's world \<Rightarrow> error option \<times> 's world" where
  "sendImage base64image w =
     (if \<not> isSetupComplete w
      then (None, log Warn ''Attempted to send image before setup completed.'' w)
      else
        (case sendJSON
                (JObj [(''realtimeInput'',
                   JObj [(''mediaChunks'',
                     JArr [JObj [(''mimeType'', JStr ''image/jpeg''),
                                 (''data'', JStr base64image)]])])]) w of
           (Some e, w') \<Rightarrow> (Some e, w')
         | (None, w') \<Rightarrow> (None, log Debug ''Image was sent'' w')))"

definition sendText :: "string \<Rightarrow> bool \<Rightarrow> 's world \<Rightarrow> error option \<times> 's world" where
  "sendText text endOfTurn w =
     (if \<not> isSetupComplete w
      then (None, log Warn ''Attempted to send text before setup completed.'' w)
      else
        (case sendJSON
                (JObj [(''clientContent'',
                   JObj [(''turns'',
                            JArr [JObj [(''role'', JStr ''user''),
                                        (''parts'', JObj [(''text'', JStr text)])]]),
                         (''turnComplete'', JBool endOfTurn)])]) w of
           (Some e, w') \<Rightarrow> (Some e, w')
         | (None, w') \<Rightarrow> (None, log Debug ''Text sent'' w')))"

text \<open>
  An object literal whose property values may be \<^verbatim>\<open>undefined\<close>: \<^verbatim>\<open>JSON.stringify\<close> leaves
  such properties out.
\<close>

definition obj :: "(string \<times> js) list \<Rightarrow> json" where
  "obj kvs = JObj (List.map_filter (\<lambda>kv. map_option (Pair (fst kv)) (snd kv)) kvs)"

text \<open>The envelope \<^verbatim>\<open>{ toolResponse: {functionResponses: [{response: {kind: v}, id}]} }\<close>.\<close>

definition tool_envelope :: "string \<Rightarrow> js \<Rightarrow> js \<Rightarrow> json" where
  "tool_envelope kind v id' =
     JObj [(''toolResponse'',
        JObj [(''functionResponses'',
          JArr [obj [(''response'', Some (obj [(kind, v)])), (''id'', id')]])])]"

definition sendToolResponse :: "js \<Rightarrow> 's world \<Rightarrow> error option \<times> 's world" where
  "sendToolResponse toolResponse w =
     (if \<not> isSetupComplete w
      then (None, log Warn ''Attempted to send tool response before setup completed.'' w)
      else if \<not> truthy toolResponse then (Some MissingToolId, w)
      else
        or_throw w (get_prop toolResponse ''id'') (\<lambda>id'.
          if \<not> truthy id' then (Some MissingToolId, w)
          else
            or_throw w (get_prop toolResponse ''output'') (\<lambda>output.
            or_throw w (get_prop toolResponse ''error'') (\<lambda>error'.
            or_throw w
              (if truthy error' then Inr (tool_envelope ''error'' error' id')
               else if output = None then Inl MissingToolOutput
               else Inr (tool_envelope ''output'' output id'))
              (\<lambda>envelope.
                 (case sendJSON envelope w of
                    (Some e, w') \<Rightarrow> (Some e, w')
                  | (None, w') \<Rightarrow> (None, log Debug ''Tool response sent'' w')))))))"

subsection \<open>Runs\<close>

datatype send_cmd =
    SendText string bool
  | SendAudio string
  | SendImage string
  | SendToolResponse js

fun send :: "send_cmd \<Rightarrow> 's world \<Rightarrow> error option \<times> 's world" where
  "send (SendText t e) w = sendText t e w"
| "send (SendAudio b) w = sendAudio b w"
| "send (SendImage b) w = sendImage b w"
| "send (SendToolResponse r) w = sendToolResponse r w"

text \<open>A sequence of calls, each awaited before the next; a call that fails does not stop
  the caller from making the next one.\<close>

fun send_all :: "send_cmd list \<Rightarrow> 's world \<Rightarrow> error option list \<times> 's world" where
  "send_all [] w = ([], w)"
| "send_all (c # cs) w =
     (case send c w of
        (r, w') \<Rightarrow> (case send_all cs w' of (rs, w'') \<Rightarrow> (r # rs, w'')))"

text \<open>
  Everything that can happen to a client: a call of one of its methods by the
  application (\<open>on\<close> among them), or an event of one of its sockets. The browser sets \<^verbatim>\<open>readyState\<close> before
  it dispatches \<^verbatim>\<open>open\<close> (to a connecting socket), \<^verbatim>\<open>error\<close> and \<^verbatim>\<open>close\<close> (the socket is
  closed by then), and delivers messages to an open socket. A list of operations may
  hold events in an order no browser produces; what is proved of every list holds of
  those a browser produces.
\<close>

datatype 's op =
    CallOn string "(payload, 's) listener"
  | CallConnect
  | CallDisconnect
  | CallSend send_cmd
  | CallSendJSON json
  | EvOpen nat
  | EvError nat "string option"
  | EvMessage nat message_data
  | EvClose nat int string bool

definition set_readyState :: "nat \<Rightarrow> ready_state \<Rightarrow> 's world \<Rightarrow> 's world" where
  "set_readyState i r w =
     (case socket_at w i of
        None \<Rightarrow> w
      | Some sk \<Rightarrow> w\<lparr>sockets := (sockets w)[i := sk\<lparr>readyState := r\<rparr>]\<rparr>)"

fun step :: "platform \<Rightarrow> 's op \<Rightarrow> 's world \<Rightarrow> 's world" where
  "step p (CallOn event l) w = this_on event l w"
| "step p CallConnect w = snd (connect p w)"
| "step p CallDisconnect w = disconnect w"
| "step p (CallSend c) w = snd (send c w)"
| "step p (CallSendJSON j) w = snd (sendJSON j w)"
| "step p (EvOpen i) w =
     (case socket_at w i of
        None \<Rightarrow> w
      | Some sk \<Rightarrow>
          (if readyState sk = CONNECTING
           then open_listener i (settles sk) (set_readyState i OPEN w)
           else w))"
| "step p (EvError i reason) w = error_listener i reason (set_readyState i CLOSED w)"
| "step p (EvMessage i d) w =
     (case socket_at w i of
        None \<Rightarrow> w
      | Some sk \<Rightarrow> (if readyState sk = OPEN then message_listener p d w else w))"
| "step p (EvClose i code reason wasClean) w =
     (case socket_at w i of
        None \<Rightarrow> w
      | Some sk \<Rightarrow> close_listener (settles sk) code reason wasClean (set_readyState i CLOSED w))"

text \<open>A run: the operations of the list, one after the other.\<close>

definition run :: "platform \<Rightarrow> 's op list \<Rightarrow> 's world \<Rightarrow> 's world" where
  "run p ops w = foldl (\<lambda>v o'. step p o' v) w ops"

text \<open>A platform for scenarios: every address is accepted and the key is appended; the
  blob \<open>''setupComplete''\<close> decodes to the SetupComplete frame and any other blob to an
  empty object; base64 data decodes to no bytes.\<close>

definition scenario_platform :: platform where
  "scenario_platform =
     \<lparr>blobToJSON =
        (\<lambda>b. if b = ''setupComplete'' then Inr (JObj [(''setupComplete'', JBool True)])
             else Inr (JObj [])),
      base64ToArrayBuffer = (\<lambda>b. Inr []),
      buildURL = (\<lambda>base key. Some (base @ ''?key='' @ key)),
      webSocketAccepts = (\<lambda>a. True)\<rparr>"

section \<open>Scenarios and vocabulary of the properties\<close>

text \<open>A fresh emitter, the listeners registered one by one, then one publication.\<close>

definition emit_after_on ::
  "string \<Rightarrow> ('a, 's) listener list \<Rightarrow> 'a \<Rightarrow> 's \<Rightarrow> (error + bool) \<times> 's" where
  "emit_after_on event ls args s =
     (case on_all event ls new_emitter of
        Inl e \<Rightarrow> (Inl e, s)
      | Inr ev \<Rightarrow> emit event args ev s)"

text \<open>What a listener leaves behind, and whether each listener of a list returns
  normally when it is called in turn from the state \<open>s\<close>.\<close>

definition effect :: "'a \<Rightarrow> ('a, 's) listener \<Rightarrow> 's \<Rightarrow> 's" where
  "effect args l s = snd (l args s)"

fun all_return :: "('a, 's) listener list \<Rightarrow> 'a \<Rightarrow> 's \<Rightarrow> bool" where
  "all_return [] args s = True"
| "all_return (l # ls) args s = (fst (l args s) = None \<and> all_return ls args (snd (l args s)))"

text \<open>Two listeners that write their name into a log; the first one then throws.\<close>

definition throwing_listener :: "('a, string list) listener" where
  "throwing_listener args s = (Some (Exception ''boom''), s @ [''first''])"

definition recording_listener :: "('a, string list) listener" where
  "recording_listener args s = (None, s @ [''second''])"


text \<open>The warning each send operation prints before the handshake.\<close>

fun early_warning :: "send_cmd \<Rightarrow> level \<times> string" where
  "early_warning (SendText t e) = (Warn, ''Attempted to send text before setup completed.'')"
| "early_warning (SendAudio b) = (Warn, ''Attempted to send audio before setup completed.'')"
| "early_warning (SendImage b) = (Warn, ''Attempted to send image before setup completed.'')"
| "early_warning (SendToolResponse r) =
     (Warn, ''Attempted to send tool response before setup completed.'')"



text \<open>The wire shapes of the parts of a model turn and of the frame that carries them.\<close>

definition TextPart :: "string \<Rightarrow> json" where
  "TextPart t = JObj [(''text'', JStr t)]"

definition AudioPart :: "string \<Rightarrow> string \<Rightarrow> json" where
  "AudioPart mime b64 = JObj [(''inlineData'', JObj [(''mimeType'', JStr mime), (''data'', JStr b64)])]"

definition model_turn_frame :: "json list \<Rightarrow> json" where
  "model_turn_frame ps = JObj [(''serverContent'', JObj [(''modelTurn'', JObj [(''parts'', JArr ps)])])]"

definition content_event :: "json list \<Rightarrow> string \<times> payload" where
  "content_event ps = (''content'', Value (Some (JObj [(''modelTurn'', JObj [(''parts'', JArr ps)])])))"

text \<open>A client as the application creates it, with a key in \<^verbatim>\<open>localStorage\<close>, no listener
  registered yet, and a log as the state of the application.\<close>

definition fresh_client :: "string list world" where
  "fresh_client =
     constructor ''gemini'' ''wss://example.test/live'' (JObj [(''model'', JStr ''m'')])
       (Some ''K'') []"

text \<open>Tool results as the application passes them.\<close>

definition tool_result :: "(string \<times> json) list \<Rightarrow> js" where
  "tool_result kvs = Some (JObj ((''id'', JStr ''t1'') # kvs))"

text \<open>The same client after \<open>connect\<close>, once its socket has opened, and once the
  SetupComplete frame has arrived.\<close>

definition connecting :: "string list world" where
  "connecting = run scenario_platform [CallConnect] fresh_client"

definition opened :: "string list world" where
  "opened = run scenario_platform [CallConnect, EvOpen 0] fresh_client"

definition handshake_done :: "string list world" where
  "handshake_done = step scenario_platform (EvMessage 0 (Blob ''setupComplete'')) opened"

text \<open>What has been written on the socket \<open>i\<close>.\<close>

definition sent_on :: "'s world \<Rightarrow> nat \<Rightarrow> json list" where
  "sent_on w i = (case socket_at w i of None \<Rightarrow> [] | Some sk \<Rightarrow> sent sk)"

text \<open>A part that is neither text nor inline data, and the frame of the four parts
  text, audio, text, other.\<close>

definition code_part :: json where
  "code_part = JObj [(''executableCode'', JObj [(''code'', JStr ''1+1'')])]"

definition four_part_frame :: json where
  "four_part_frame =
     model_turn_frame [TextPart ''a'', AudioPart ''audio/pcm;rate=24000'' ''AAAA'',
                       TextPart ''b'', code_part]"

text \<open>
  The references of a world: the socket attached to the client, the promise it holds,
  the promise each socket's listeners settle, and how many promises there are. A world
  is allocated when every reference names an object that exists.
\<close>

definition layout :: "'s world \<Rightarrow> nat option \<times> nat option \<times> nat list \<times> nat" where
  "layout w = (ws w, connectionPromise w, map settles (sockets w), length (promises w))"

definition allocated :: "'s world \<Rightarrow> bool" where
  "allocated w =
     (case layout w of
        (attached, held, settled, n) \<Rightarrow>
          (case attached of None \<Rightarrow> True | Some i \<Rightarrow> i < length settled) \<and>
          (case held of None \<Rightarrow> True | Some q \<Rightarrow> q < n) \<and>
          list_all (\<lambda>q. q < n) settled)"

text \<open>
  Publications one after the other, as consecutive calls of \<^verbatim>\<open>this.emit\<close> make them: the
  next one is made when the listeners of the one before have returned, and the first
  exception of a listener ends the sequence.
\<close>

fun publish_all :: "(string \<times> payload) list \<Rightarrow> 's world \<Rightarrow> error option \<times> 's world" where
  "publish_all [] w = (None, w)"
| "publish_all (ev # rest) w =
     (case this_emit (fst ev) (snd ev) w of
        (Some e, w') \<Rightarrow> (Some e, w')
      | (None, w') \<Rightarrow> publish_all rest w')"

text \<open>The events of a close, by its classification.\<close>

definition close_events :: "int \<Rightarrow> string \<Rightarrow> bool \<Rightarrow> (string \<times> payload) list" where
  "close_events code reason wasClean =
     (if authFailure code reason
      then [(''auth_failed'', Text (AuthFailedMsg code reason)),
            (''error'', Text (AuthFailedMsg code reason))]
      else [(''disconnected'', disconnected_info code reason wasClean)])"


text \<open>The client whose handshake is done, with a listener of \<open>auth_failed\<close> that throws, and
  the fresh client with a listener of \<open>text\<close> that throws.\<close>

definition guarded :: "string list world" where
  "guarded = step scenario_platform (CallOn ''auth_failed'' throwing_listener) handshake_done"

definition text_guarded :: "string list world" where
  "text_guarded = step scenario_platform (CallOn ''text'' throwing_listener) fresh_client"

text \<open>
  The session: the fields of the client and the sockets and promises it acts on, that
  is everything but the console, the record of the publications and the state of the
  application.
\<close>

definition session ::
  "'s world \<Rightarrow>
   (string \<times> string \<times> json \<times> string option) \<times> (nat option \<times> bool \<times> nat option \<times> bool) \<times>
   (payload, 's) emitter \<times> socket list \<times> promise_state list" where
  "session w =
     ((name w, url w, config w, localStorage w),
      (ws w, isConnecting w, connectionPromise w, isSetupComplete w),
      events w, sockets w, promises w)"


text \<open>A frame of server content with its two flags and the parts of a model turn, and the
  event that announces a complete turn.\<close>

definition turn_frame :: "bool \<Rightarrow> bool \<Rightarrow> json list \<Rightarrow> json" where
  "turn_frame interrupted turnComplete ps =
     JObj [(''serverContent'',
            JObj [(''interrupted'', JBool interrupted), (''turnComplete'', JBool turnComplete),
                  (''modelTurn'', JObj [(''parts'', JArr ps)])])]"

definition turn_complete_events :: "json \<Rightarrow> (string \<times> payload) list" where
  "turn_complete_events serverContent =
     (if truthy (field serverContent ''turnComplete'') then [(''turn_complete'', NoArgs)] else [])"

section \<open>The event emitter: order of listeners and exceptions\<close>

lemma on_all_appends:
  assumes "event \<notin> set object_prototype_keys"
  shows "on_all event ls ev =
     Inr (if ls = [] then ev
          else ev(event \<mapsto> (case ev event of None \<Rightarrow> [] | Some xs \<Rightarrow> xs) @ ls))"
proof (induction ls arbitrary: ev)
  case Nil
  show ?case by simp
next
  case (Cons l ls)
  have first: "on event l ev =
      Inr (ev(event \<mapsto> (case ev event of None \<Rightarrow> [] | Some xs \<Rightarrow> xs) @ [l]))"
    using assms by (simp add: on_def)
  show ?case
  proof (cases "ls = []")
    case True
    then show ?thesis using first by (auto simp: fun_upd_def)
  next
    case False
    then show ?thesis using first Cons.IH by (auto simp: fun_upd_def)
  qed
qed

lemma forEach_listener_append:
  "forEach_listener (pre @ rest) args s =
     (case forEach_listener pre args s of
        (Some e, s') \<Rightarrow> (Some e, s')
      | (None, s') \<Rightarrow> forEach_listener rest args s')"
  by (induction pre arbitrary: s) (auto split: prod.splits option.splits)

lemma forEach_listener_returns:
  "all_return ls args s \<Longrightarrow> forEach_listener ls args s = (None, fold (effect args) ls s)"
proof (induction ls arbitrary: s)
  case Nil
  then show ?case by simp
next
  case (Cons l ls)
  from Cons.prems obtain s' where l: "l args s = (None, s')"
    by (cases "l args s") auto
  with Cons show ?case by (simp add: effect_def)
qed

text \<open>
  Claim C9, as the code has it. For an event name that \<^verbatim>\<open>{}\<close> does not inherit, a
  publication calls the listeners registered for the name in the order of their
  registration, synchronously. With no listener it returns \<^verbatim>\<open>false\<close>. When every
  listener returns, all of them have run, in order, and it returns \<^verbatim>\<open>true\<close>. When a
  listener throws, the listeners registered before it have run, it has run up to its
  exception, the exception leaves \<^verbatim>\<open>emit\<close>, and no listener registered after it is called:
  the result does not depend on \<open>post\<close>.
\<close>

theorem emit_runs_listeners_until_one_throws:
  assumes "event \<notin> set object_prototype_keys"
  shows "emit_after_on event [] args s = (Inr False, s) \<and>
         (ls \<noteq> [] \<and> all_return ls args s \<longrightarrow>
            emit_after_on event ls args s = (Inr True, fold (effect args) ls s)) \<and>
         (all_return pre args s \<and> l args (fold (effect args) pre s) = (Some e, s') \<longrightarrow>
            emit_after_on event (pre @ l # post) args s = (Inl e, s'))"
proof (intro conjI impI)
  show "emit_after_on event [] args s = (Inr False, s)"
    using assms by (simp add: emit_after_on_def emit_def new_emitter_def)
next
  assume "ls \<noteq> [] \<and> all_return ls args s"
  then show "emit_after_on event ls args s = (Inr True, fold (effect args) ls s)"
    using assms
    by (simp add: emit_after_on_def emit_def new_emitter_def on_all_appends
        forEach_listener_returns)
next
  assume h: "all_return pre args s \<and> l args (fold (effect args) pre s) = (Some e, s')"
  have "forEach_listener (pre @ l # post) args s = (Some e, s')"
    using h by (simp add: forEach_listener_append forEach_listener_returns)
  then show "emit_after_on event (pre @ l # post) args s = (Inl e, s')"
    using assms by (simp add: emit_after_on_def emit_def new_emitter_def on_all_appends)
qed

theorem emit_runs_listeners_until_one_throws_witness:
  "''text'' \<notin> set object_prototype_keys \<and>
   all_return [recording_listener, recording_listener] () [] \<and>
   emit_after_on ''text'' [recording_listener, recording_listener] () [] =
     (Inr True, [''second'', ''second'']) \<and>
   emit_after_on ''text'' [recording_listener, throwing_listener, recording_listener] () [] =
     (Inl (Exception ''boom''), [''second'', ''first''])"
proof -
  have k: "''text'' \<notin> set object_prototype_keys"
    by (simp add: object_prototype_keys_def)
  have r: "all_return [recording_listener] () []"
    by (simp add: recording_listener_def)
  have r2: "all_return [recording_listener, recording_listener] () []"
    by (simp add: recording_listener_def)
  have t: "throwing_listener () (fold (effect ()) [recording_listener] []) =
           (Some (Exception ''boom''), [''second'', ''first''])"
    by (simp add: throwing_listener_def recording_listener_def effect_def)
  note inst = emit_runs_listeners_until_one_throws [OF k,
      of "()" "[]" "[recording_listener, recording_listener]" "[recording_listener]"
         throwing_listener "Exception ''boom''" "[''second'', ''first'']" "[recording_listener]"]
  from inst r r2 t k show ?thesis
    by (simp add: effect_def recording_listener_def)
qed

text \<open>
  Claim C9 as the specification states it fails: with a listener that throws registered
  before one that records its call, the publication ends with the exception and the
  second listener has not been called.
\<close>

theorem emit_stops_at_throwing_listener:
  "emit_after_on ''text'' [throwing_listener, recording_listener] () [] =
     (Inl (Exception ''boom''), [''first''])"
  by (simp add: emit_after_on_def emit_def new_emitter_def on_def object_prototype_keys_def
      throwing_listener_def recording_listener_def)

section \<open>The handshake flag\<close>


text \<open>What holds after each of two statements in sequence holds after both.\<close>

lemma then_do_keeps:
  assumes "g (snd r) = c" and "\<And>v. g v = c \<Longrightarrow> g (snd (f v)) = c"
  shows "g (snd (then_do r f)) = c"
  using assms by (cases r) (auto simp: then_do_def split: option.splits)

lemma or_throw_keeps:
  assumes "g w = c" and "\<And>x. g (snd (f x)) = c"
  shows "g (snd (or_throw w r f)) = c"
  using assms by (simp add: or_throw_def split: sum.splits)

text \<open>A publication changes the state of the application and nothing of the session,
  and so does everything \<open>receive\<close> does with the parts of a model turn.\<close>

lemma session_log [simp]: "session (log l m w) = session w"
  by (simp add: session_def log_def)

lemma session_this_emit [simp]: "session (snd (this_emit e a w)) = session w"
  by (simp add: session_def this_emit_def split: prod.splits)

lemma session_this_emit_result: "this_emit e a w = (r, w') \<Longrightarrow> session w' = session w"
  using session_this_emit [of e a w] by simp

lemma session_forEach_text [simp]: "session (snd (forEach_text ts w)) = session w"
proof (induction ts arbitrary: w)
  case Nil
  show ?case by simp
next
  case (Cons t ts)
  obtain r w' where e: "this_emit ''text'' (Value (field t ''text'')) w = (r, w')"
    by (cases "this_emit ''text'' (Value (field t ''text'')) w")
  then have "session w' = session w" by (rule session_this_emit_result)
  then show ?case using e Cons.IH [of w'] by (cases r) simp_all
qed

lemma session_forEach_base64 [simp]: "session (snd (forEach_base64 p bs w)) = session w"
proof (induction bs arbitrary: w)
  case Nil
  show ?case by simp
next
  case (Cons b bs)
  show ?case
  proof (cases "truthy b")
    case False
    then show ?thesis using Cons.IH [of w] by simp
  next
    case True
    show ?thesis
    proof (cases "base64ToArrayBuffer p b")
      case (Inl e)
      then show ?thesis using True by simp
    next
      case (Inr d)
      obtain r w' where e: "this_emit ''audio'' (Bytes d) w = (r, w')"
        by (cases "this_emit ''audio'' (Bytes d) w")
      then have "session w' = session w" by (rule session_this_emit_result)
      then show ?thesis using e True Inr Cons.IH [of w'] by (cases r) simp_all
    qed
  qed
qed

lemma session_model_turn [simp]: "session (snd (model_turn p mt w)) = session w"
  unfolding model_turn_def Let_def
  by (auto intro!: or_throw_keeps [where g = session] then_do_keeps [where g = session])

lemma session_server_content [simp]: "session (snd (server_content p sc w)) = session w"
  unfolding server_content_def
  by (auto intro!: or_throw_keeps [where g = session] then_do_keeps [where g = session])


lemma session_flag: "session w' = session w \<Longrightarrow> isSetupComplete w' = isSetupComplete w"
  by (simp add: session_def)

text \<open>No helper of the client touches \<open>isSetupComplete\<close>.\<close>

lemma flag_log [simp]: "isSetupComplete (log l m w) = isSetupComplete w"
  by (simp add: log_def)

lemma flag_this_emit [simp]: "isSetupComplete (snd (this_emit e a w)) = isSetupComplete w"
  by (rule session_flag) simp

lemma flag_this_emit_result:
  "this_emit e a w = (r, w') \<Longrightarrow> isSetupComplete w' = isSetupComplete w"
  using flag_this_emit [of e a w] by simp

lemma flag_this_on [simp]: "isSetupComplete (this_on e l w) = isSetupComplete w"
  by (simp add: this_on_def split: sum.splits)

lemma flag_settle [simp]: "isSetupComplete (settle i r w) = isSetupComplete w"
  by (simp add: settle_def)

lemma flag_ws_close [simp]: "isSetupComplete (ws_close i w) = isSetupComplete w"
  by (simp add: ws_close_def split: option.splits)

lemma flag_ws_send [simp]: "isSetupComplete (ws_send i j w) = isSetupComplete w"
  by (simp add: ws_send_def split: option.splits)

lemma flag_set_readyState [simp]: "isSetupComplete (set_readyState i r w) = isSetupComplete w"
  by (simp add: set_readyState_def split: option.splits)

lemma flag_sendJSON [simp]: "isSetupComplete (snd (sendJSON j w)) = isSetupComplete w"
  by (simp add: sendJSON_def split: option.splits)

lemma flag_sendJSON_result: "sendJSON j w = (r, w') \<Longrightarrow> isSetupComplete w' = isSetupComplete w"
  using flag_sendJSON [of j w] by simp

lemma flag_disconnect [simp]: "isSetupComplete (disconnect w) = isSetupComplete w"
  by (simp add: disconnect_def split: option.splits)

lemma flag_emit_error_and_reject [simp]:
  "isSetupComplete (snd (emit_error_and_reject m e w)) = isSetupComplete w"
  by (auto simp: emit_error_and_reject_def split: prod.splits option.splits
      dest: flag_this_emit_result)

lemma flag_connect [simp]: "isSetupComplete (snd (connect p w)) = isSetupComplete w"
  by (simp add: connect_def Let_def split: option.splits)

lemma flag_send [simp]: "isSetupComplete (snd (send c w)) = isSetupComplete w"
proof (cases c)
  case (SendText t e)
  then show ?thesis
    by (auto simp: sendText_def split: option.splits prod.splits dest: flag_sendJSON_result)
next
  case (SendAudio b)
  then show ?thesis
    by (auto simp: sendAudio_def split: option.splits prod.splits dest: flag_sendJSON_result)
next
  case (SendImage b)
  then show ?thesis
    by (auto simp: sendImage_def split: option.splits prod.splits dest: flag_sendJSON_result)
next
  case (SendToolResponse r)
  then show ?thesis
    by (auto simp: sendToolResponse_def or_throw_def Let_def
        split: option.splits prod.splits sum.splits if_splits dest: flag_sendJSON_result)
qed

lemma flag_server_content [simp]:
  "isSetupComplete (snd (server_content p sc w)) = isSetupComplete w"
  by (rule session_flag) simp



lemma flag_open_listener [simp]:
  "isSetupComplete (open_listener i pid w) = isSetupComplete w"
  by (simp add: open_listener_def Let_def)

lemma flag_error_listener [simp]:
  "isSetupComplete (error_listener i reason w) = isSetupComplete w"
  by (auto simp: error_listener_def Let_def split: option.splits prod.splits
      dest: flag_this_emit_result)

lemma flag_close_listener [simp]:
  "isSetupComplete (close_listener pid code reason wasClean w) = isSetupComplete w"
  by (auto simp: close_listener_def Let_def then_do_def split: option.splits prod.splits if_splits
      dest!: flag_this_emit_result)



section \<open>References name objects that exist\<close>

text \<open>
  Sockets and promises are created by \<open>connect\<close> only, at the next free index, and never
  removed. In every run from the constructor the socket attached to the client, the
  promise it holds and the promise of every socket's listeners exist, so the branches
  of the model for an index outside a store are never taken.
\<close>

lemma map_settles_update:
  "i < length xs \<Longrightarrow> settles sk = settles (xs ! i) \<Longrightarrow> map settles (xs[i := sk]) = map settles xs"
  by (simp add: map_update list_update_same_conv)

lemma session_layout: "session w' = session w \<Longrightarrow> layout w' = layout w"
  by (simp add: session_def layout_def)

lemma layout_log [simp]: "layout (log l m w) = layout w"
  by (simp add: layout_def log_def)

lemma layout_this_emit [simp]: "layout (snd (this_emit e a w)) = layout w"
  by (rule session_layout) simp

lemma layout_this_emit_result: "this_emit e a w = (r, w') \<Longrightarrow> layout w' = layout w"
  using layout_this_emit [of e a w] by simp

lemma layout_this_on [simp]: "layout (this_on e l w) = layout w"
  by (simp add: this_on_def layout_def split: sum.splits)

lemma layout_settle [simp]: "layout (settle i r w) = layout w"
  by (simp add: layout_def settle_def)

lemma layout_ws_close [simp]: "layout (ws_close i w) = layout w"
  by (auto simp: layout_def ws_close_def socket_at_def map_settles_update split: if_splits)

lemma layout_ws_send [simp]: "layout (ws_send i j w) = layout w"
  by (auto simp: layout_def ws_send_def socket_at_def map_settles_update split: if_splits)

lemma layout_set_readyState [simp]: "layout (set_readyState i r w) = layout w"
  by (auto simp: layout_def set_readyState_def socket_at_def map_settles_update split: if_splits)

lemma layout_sendJSON [simp]: "layout (snd (sendJSON j w)) = layout w"
  by (simp add: sendJSON_def split: option.splits)

lemma layout_sendJSON_result: "sendJSON j w = (r, w') \<Longrightarrow> layout w' = layout w"
  using layout_sendJSON [of j w] by simp

lemma layout_send [simp]: "layout (snd (send c w)) = layout w"
proof (cases c)
  case (SendText t e)
  then show ?thesis
    by (auto simp: sendText_def split: option.splits prod.splits dest: layout_sendJSON_result)
next
  case (SendAudio b)
  then show ?thesis
    by (auto simp: sendAudio_def split: option.splits prod.splits dest: layout_sendJSON_result)
next
  case (SendImage b)
  then show ?thesis
    by (auto simp: sendImage_def split: option.splits prod.splits dest: layout_sendJSON_result)
next
  case (SendToolResponse r)
  then show ?thesis
    by (auto simp: sendToolResponse_def or_throw_def Let_def
        split: option.splits prod.splits sum.splits if_splits dest: layout_sendJSON_result)
qed

lemma layout_flag_update [simp]: "layout (w\<lparr>isSetupComplete := b\<rparr>) = layout w"
  by (simp add: layout_def)

lemma layout_server_content [simp]: "layout (snd (server_content p sc w)) = layout w"
  by (rule session_layout) simp

lemma layout_receive [simp]: "layout (snd (receive p b w)) = layout w"
  by (simp add: receive_def receive_response_def split: sum.splits)

lemma layout_isConnecting_update [simp]: "layout (w\<lparr>isConnecting := b\<rparr>) = layout w"
  by (simp add: layout_def)

lemma layout_disconnect:
  "layout (disconnect w) =
     (None, (case ws w of None \<Rightarrow> connectionPromise w | Some i \<Rightarrow> None),
      map settles (sockets w), length (promises w))"
proof (cases "ws w")
  case None
  then show ?thesis by (simp add: disconnect_def layout_def)
next
  case (Some i)
  have "layout (ws_close i w) = layout w" by simp
  then show ?thesis using Some by (simp add: disconnect_def layout_def log_def)
qed

lemma allocated_disconnect: "allocated w \<Longrightarrow> allocated (disconnect w)"
  by (auto simp: allocated_def layout_disconnect) (auto simp: layout_def split: option.splits)

lemma layout_close_listener:
  "layout (close_listener pid code reason wasClean w) = layout (disconnect w)"
proof -
  let ?w2 = "disconnect (log Warn ''WebSocket connection closed.'' w)"
  have d: "layout ?w2 = layout (disconnect w)"
    by (simp add: layout_disconnect) (simp add: layout_def log_def split: option.splits)
  have "layout (close_listener pid code reason wasClean w) = layout ?w2"
    by (auto simp: close_listener_def Let_def then_do_def
        split: option.splits prod.splits if_splits dest!: layout_this_emit_result)
  then show ?thesis using d by simp
qed

lemma layout_error_listener:
  "layout (error_listener i reason w) =
     (case socket_at w i of None \<Rightarrow> layout w | Some sk \<Rightarrow> layout (disconnect w))"
  by (auto simp: error_listener_def Let_def split: option.splits prod.splits
      dest!: layout_this_emit_result)

lemma allocated_connect: "allocated w \<Longrightarrow> allocated (snd (connect p w))"
proof -
  assume a: "allocated w"
  have e: "\<And>m e v. allocated v \<Longrightarrow> allocated (snd (emit_error_and_reject m e v))"
    by (auto simp: emit_error_and_reject_def allocated_def split: prod.splits option.splits
        dest!: layout_this_emit_result)
  have l: "\<And>m. allocated (log Err m w)" using a by (simp add: allocated_def)
  show ?thesis
    using a e [OF l]
    by (auto simp: connect_def Let_def split: option.splits)
      (auto simp: allocated_def layout_def log_def list_all_iff split: option.splits)
qed

lemma allocated_open_listener:
  assumes "i < length (sockets w)" "allocated w"
  shows "allocated (open_listener i pid w)"
proof -
  let ?w2 = "(log Info ''Successfully connected to websocket'' w)\<lparr>ws := Some i, isConnecting := False\<rparr>"
  have "layout (open_listener i pid w) = layout (snd (sendJSON (JObj [(''setup'', config ?w2)]) ?w2))"
    by (simp add: open_listener_def Let_def)
  also have "\<dots> = layout ?w2" by simp
  finally have "layout (open_listener i pid w) = (Some i, snd (layout w))"
    by (simp add: layout_def log_def)
  then show ?thesis using assms
    by (auto simp: allocated_def layout_def split: option.splits)
qed

lemma allocated_step: "allocated w \<Longrightarrow> allocated (step p o' w)"
proof (cases o')
  case (CallOn e l)
  assume "allocated w"
  then show ?thesis using CallOn by (simp add: allocated_def)
next
  case CallConnect
  assume "allocated w"
  then show ?thesis using CallConnect by (simp add: allocated_connect)
next
  case CallDisconnect
  assume "allocated w"
  then show ?thesis using CallDisconnect by (simp add: allocated_disconnect)
next
  case (CallSend c)
  assume "allocated w"
  then show ?thesis using CallSend by (simp add: allocated_def)
next
  case (CallSendJSON j)
  assume "allocated w"
  then show ?thesis using CallSendJSON by (simp add: allocated_def)
next
  case (EvOpen i)
  assume a: "allocated w"
  show ?thesis
  proof (cases "socket_at w i")
    case None
    then show ?thesis using a EvOpen by simp
  next
    case (Some sk)
    then have i: "i < length (sockets w)" by (simp add: socket_at_def split: if_splits)
    have "allocated (set_readyState i OPEN w)" using a by (simp add: allocated_def)
    moreover have "i < length (sockets (set_readyState i OPEN w))"
      using i by (simp add: set_readyState_def socket_at_def)
    ultimately have "allocated (open_listener i (settles sk) (set_readyState i OPEN w))"
      by (rule allocated_open_listener [rotated])
    then show ?thesis using a EvOpen Some by simp
  qed
next
  case (EvError i reason)
  assume a: "allocated w"
  have "allocated (set_readyState i CLOSED w)" using a by (simp add: allocated_def)
  then have "allocated (disconnect (set_readyState i CLOSED w))" by (rule allocated_disconnect)
  then have "allocated (error_listener i reason (set_readyState i CLOSED w))"
    using a by (simp add: allocated_def layout_error_listener split: option.splits)
  then show ?thesis using EvError by simp
next
  case (EvMessage i d)
  assume "allocated w"
  then show ?thesis using EvMessage
    by (cases d) (simp_all add: message_listener_def allocated_def split: option.splits)
next
  case (EvClose i code reason wasClean)
  assume a: "allocated w"
  have "allocated (set_readyState i CLOSED w)" using a by (simp add: allocated_def)
  then have "allocated (disconnect (set_readyState i CLOSED w))" by (rule allocated_disconnect)
  then have "\<And>pid. allocated (close_listener pid code reason wasClean (set_readyState i CLOSED w))"
    by (simp add: allocated_def layout_close_listener)
  then show ?thesis using EvClose a by (simp split: option.splits)
qed

lemma allocated_run: "allocated w \<Longrightarrow> allocated (run p ops w)"
  unfolding run_def by (induction ops arbitrary: w) (simp_all add: allocated_step)

lemma allocated_constructor: "allocated (constructor n u c k s)"
  by (simp add: allocated_def layout_def constructor_def)

lemma allocated_from_constructor: "allocated (run p ops (constructor n u c k s))"
  by (rule allocated_run) (rule allocated_constructor)

section \<open>SetupComplete frames and the life of the flag\<close>

lemma emitted_this_emit [simp]: "emitted (snd (this_emit e a w)) = emitted w @ [(e, a)]"
  by (simp add: this_emit_def split: prod.splits)




lemma ws_disconnect [simp]: "ws (disconnect w) = None"
  by (simp add: disconnect_def log_def split: option.splits)






section \<open>Sends before the handshake\<close>

lemma send_early:
  "\<not> isSetupComplete w \<Longrightarrow> send c w = (None, w\<lparr>console := console w @ [early_warning c]\<rparr>)"
  by (cases c) (simp_all add: sendText_def sendAudio_def sendImage_def sendToolResponse_def or_throw_def log_def)

text \<open>
  Claim C5. While the flag is false, a sequence of calls of the four send operations,
  whatever their arguments, raises no error and changes nothing but the console, which
  gets one warning per call: the client's fields, the sockets with what was sent on
  them, the promises and the publications are as before.
\<close>

theorem sends_before_handshake_only_warn:
  "\<not> isSetupComplete w \<Longrightarrow>
   send_all cs w = (map (\<lambda>c. None) cs, w\<lparr>console := console w @ map early_warning cs\<rparr>)"
proof (induction cs arbitrary: w)
  case Nil
  then show ?case by simp
next
  case (Cons c cs)
  let ?w1 = "w\<lparr>console := console w @ [early_warning c]\<rparr>"
  have "\<not> isSetupComplete ?w1" using Cons.prems by simp
  from Cons.IH [OF this] Cons.prems show ?case by (simp add: send_early)
qed

theorem sends_before_handshake_only_warn_witness:
  "\<not> isSetupComplete opened \<and>
   send_all [SendText ''hello'' True, SendAudio ''AAAA'', SendImage ''/9j/'',
             SendToolResponse (tool_result [])] opened =
     ([None, None, None, None],
      opened\<lparr>console := console opened @
        [(Warn, ''Attempted to send text before setup completed.''),
         (Warn, ''Attempted to send audio before setup completed.''),
         (Warn, ''Attempted to send image before setup completed.''),
         (Warn, ''Attempted to send tool response before setup completed.'')]\<rparr>)"
proof -
  have o: "\<not> isSetupComplete opened" by code_simp
  from sends_before_handshake_only_warn [OF o,
      of "[SendText ''hello'' True, SendAudio ''AAAA'', SendImage ''/9j/'',
           SendToolResponse (tool_result [])]"] o
  show ?thesis by simp
qed

section \<open>Tool results\<close>

lemma sent_on_ws_send:
  "socket_at w i = Some sk \<Longrightarrow> sent_on (ws_send i j w) i = sent sk @ [j]"
  by (auto simp: sent_on_def ws_send_def socket_at_def split: if_splits)

lemma sendJSON_open:
  assumes "isSetupComplete w" "ws w = Some i"
    "map_option readyState (socket_at w i) = Some OPEN"
  shows "sendJSON j w = (None, log Debug ''JSON Object was sent'' (ws_send i j w))"
  using assms by (simp add: sendJSON_def)

lemma sent_on_log [simp]: "sent_on (log l m w) i = sent_on w i"
  by (simp add: sent_on_def log_def socket_at_def)

text \<open>
  Claim C6, as the code has it. A tool result with an id and neither output nor error:
  before the handshake the call only prints the warning of the guard and raises
  nothing; after the handshake it raises the missing-output error and changes nothing.
  After the handshake and on an open socket, the result with the error \<open>x\<close> and the
  result with the output \<open>y\<close> both succeed, and each writes one envelope on the socket:
  \<^verbatim>\<open>{response: {error}}\<close> for the one, \<^verbatim>\<open>{response: {output}}\<close> for the other.
\<close>

theorem tool_result_validation:
  "(\<not> isSetupComplete w \<longrightarrow>
      sendToolResponse (tool_result []) w =
        (None, log Warn ''Attempted to send tool response before setup completed.'' w)) \<and>
   (isSetupComplete w \<longrightarrow>
      sendToolResponse (tool_result []) w = (Some MissingToolOutput, w)) \<and>
   (isSetupComplete w \<and> ws w = Some i \<and> map_option readyState (socket_at w i) = Some OPEN \<longrightarrow>
      fst (sendToolResponse (tool_result [(''error'', JStr ''x'')]) w) = None \<and>
      sent_on (snd (sendToolResponse (tool_result [(''error'', JStr ''x'')]) w)) i =
        sent_on w i @
          [JObj [(''toolResponse'', JObj [(''functionResponses'',
             JArr [JObj [(''response'', JObj [(''error'', JStr ''x'')]),
                         (''id'', JStr ''t1'')]])])]] \<and>
      fst (sendToolResponse (tool_result [(''output'', JStr ''y'')]) w) = None \<and>
      sent_on (snd (sendToolResponse (tool_result [(''output'', JStr ''y'')]) w)) i =
        sent_on w i @
          [JObj [(''toolResponse'', JObj [(''functionResponses'',
             JArr [JObj [(''response'', JObj [(''output'', JStr ''y'')]),
                         (''id'', JStr ''t1'')]])])]] \<and>
      sent_on (snd (sendToolResponse (tool_result [(''error'', JStr ''x'')]) w)) i \<noteq>
        sent_on (snd (sendToolResponse (tool_result [(''output'', JStr ''y'')]) w)) i)"
proof (intro conjI impI)
  assume "\<not> isSetupComplete w"
  then show "sendToolResponse (tool_result []) w =
        (None, log Warn ''Attempted to send tool response before setup completed.'' w)"
    by (simp add: sendToolResponse_def or_throw_def)
next
  assume "isSetupComplete w"
  then show "sendToolResponse (tool_result []) w = (Some MissingToolOutput, w)"
    by (simp add: sendToolResponse_def or_throw_def tool_result_def)
next
  assume h: "isSetupComplete w \<and> ws w = Some i \<and>
             map_option readyState (socket_at w i) = Some OPEN"
  then obtain sk where sk: "socket_at w i = Some sk" by auto
  have so: "sent_on w i = sent sk" using sk by (simp add: sent_on_def)
  have j: "\<And>j. sendJSON j w = (None, log Debug ''JSON Object was sent'' (ws_send i j w))"
    using h by (simp add: sendJSON_open)
  show "fst (sendToolResponse (tool_result [(''error'', JStr ''x'')]) w) = None"
    using h by (simp add: sendToolResponse_def or_throw_def tool_result_def j)
  show "fst (sendToolResponse (tool_result [(''output'', JStr ''y'')]) w) = None"
    using h by (simp add: sendToolResponse_def or_throw_def tool_result_def j)
  show e: "sent_on (snd (sendToolResponse (tool_result [(''error'', JStr ''x'')]) w)) i =
        sent_on w i @
          [JObj [(''toolResponse'', JObj [(''functionResponses'',
             JArr [JObj [(''response'', JObj [(''error'', JStr ''x'')]),
                         (''id'', JStr ''t1'')]])])]]"
    using h by (simp add: sendToolResponse_def or_throw_def tool_result_def j sent_on_ws_send [OF sk] so
        tool_envelope_def obj_def List.map_filter_simps)
  show o: "sent_on (snd (sendToolResponse (tool_result [(''output'', JStr ''y'')]) w)) i =
        sent_on w i @
          [JObj [(''toolResponse'', JObj [(''functionResponses'',
             JArr [JObj [(''response'', JObj [(''output'', JStr ''y'')]),
                         (''id'', JStr ''t1'')]])])]]"
    using h by (simp add: sendToolResponse_def or_throw_def tool_result_def j sent_on_ws_send [OF sk] so
        tool_envelope_def obj_def List.map_filter_simps)
  show "sent_on (snd (sendToolResponse (tool_result [(''error'', JStr ''x'')]) w)) i \<noteq>
        sent_on (snd (sendToolResponse (tool_result [(''output'', JStr ''y'')]) w)) i"
    unfolding e o by simp
qed

theorem tool_result_validation_witness:
  "\<not> isSetupComplete opened \<and> isSetupComplete handshake_done \<and> ws handshake_done = Some 0 \<and>
   map_option readyState (socket_at handshake_done 0) = Some OPEN \<and>
   fst (sendToolResponse (tool_result []) opened) = None \<and>
   fst (sendToolResponse (tool_result []) handshake_done) = Some MissingToolOutput \<and>
   fst (sendToolResponse (tool_result [(''error'', JStr ''x'')]) handshake_done) = None \<and>
   sent_on (snd (sendToolResponse (tool_result [(''error'', JStr ''x'')]) handshake_done)) 0 =
     [JObj [(''toolResponse'', JObj [(''functionResponses'',
        JArr [JObj [(''response'', JObj [(''error'', JStr ''x'')]), (''id'', JStr ''t1'')]])])]] \<and>
   sent_on (snd (sendToolResponse (tool_result [(''output'', JStr ''y'')]) handshake_done)) 0 =
     [JObj [(''toolResponse'', JObj [(''functionResponses'',
        JArr [JObj [(''response'', JObj [(''output'', JStr ''y'')]), (''id'', JStr ''t1'')]])])]]"
proof -
  have o: "\<not> isSetupComplete opened" by code_simp
  have f: "isSetupComplete handshake_done" by code_simp
  have w: "ws handshake_done = Some 0" by code_simp
  have r: "map_option readyState (socket_at handshake_done 0) = Some OPEN" by code_simp
  have s: "sent_on handshake_done 0 = []" by code_simp
  from tool_result_validation [of opened 0] tool_result_validation [of handshake_done 0]
    o f w r s
  show ?thesis by simp
qed

text \<open>
  Claim C6 as the specification states it fails before the handshake: with the flag
  false, the tool result with neither output nor error raises no error; the call
  returns normally and writes nothing.
\<close>

theorem tool_result_without_output_before_handshake:
  "isSetupComplete opened = False \<and>
   fst (sendToolResponse (tool_result []) opened) = None \<and>
   sent_on (snd (sendToolResponse (tool_result []) opened)) 0 = []"
  by code_simp

section \<open>The connection attempt\<close>

text \<open>What the listener of \<open>open\<close> does on every connection that opens while the flag is
  false: it writes on no socket, and it fulfils the pending promise of its closure.\<close>

lemma open_listener_before_handshake:
  assumes "\<not> isSetupComplete w"
  shows "sockets (open_listener i pid w) = sockets w"
    and "\<not> isSetupComplete (open_listener i pid w)"
    and "promise_at w pid = Some Pending \<Longrightarrow>
         promise_at (open_listener i pid w) pid = Some Fulfilled"
  using assms
  by (auto simp: open_listener_def Let_def sendJSON_def log_def settle_def promise_at_def
      split: if_splits)

text \<open>
  Claim C1 at the failing input: a fresh client, \<open>connect\<close>, then the \<open>open\<close> event of its
  socket. The listener calls \<open>sendJSON\<close> with the Configuration frame while the flag is
  still false, so the guard of \<open>sendJSON\<close> prints its warning and returns: the socket is
  open and nothing has been written on it, although the listener then logs that the
  setup message was sent.
\<close>

theorem setup_frame_dropped_on_open:
  "map_option readyState (socket_at opened 0) = Some OPEN \<and>
   sent_on opened 0 = [] \<and>
   console opened =
     [(Info, ''Establishing WebSocket connection...''),
      (Info, ''Successfully connected to websocket''),
      (Warn, ''Attempted to send JSON before setup completed.''),
      (Debug, ''Setup message with the following configuration was sent:'')]"
  by code_simp

text \<open>
  Claim C2 at the failing input: the promise \<open>connect\<close> returned is pending after
  \<open>connect\<close> and fulfilled as soon as the socket has opened, with no frame received, no
  event published and the flag still false.
\<close>

theorem connect_fulfilled_before_setupComplete:
  "fst (connect scenario_platform fresh_client) = Adopts (Some 0) \<and>
   promise_at connecting 0 = Some Pending \<and>
   promise_at opened 0 = Some Fulfilled \<and>
   emitted opened = [] \<and>
   isSetupComplete opened = False"
  by code_simp

section \<open>Disconnect and the promise of a connection attempt\<close>

lemma promises_log [simp]: "promises (log l m w) = promises w"
  by (simp add: log_def)

lemma promises_ws_close [simp]: "promises (ws_close i w) = promises w"
  by (simp add: ws_close_def split: option.splits)

lemma promises_disconnect [simp]: "promises (disconnect w) = promises w"
  by (simp add: disconnect_def split: option.splits)



text \<open>Whether a listener throws, and what the listeners leave of the application,
  depends on the registered listeners and on the state of the application only.\<close>

lemma this_emit_hears:
  assumes "events w' = events w" "app w' = app w"
  shows "fst (this_emit e a w') = fst (this_emit e a w)"
    and "events (snd (this_emit e a w')) = events (snd (this_emit e a w))"
    and "app (snd (this_emit e a w')) = app (snd (this_emit e a w))"
  using assms by (simp_all add: this_emit_def split: prod.splits)


lemma publish_all_single: "this_emit e a w = publish_all [(e, a)] w"
  by (cases "this_emit e a w") (auto split: option.splits)

lemma publish_all_pair:
  "then_do (this_emit e a w) (this_emit e' a') = publish_all [(e, a), (e', a')] w"
proof (cases "this_emit e a w")
  case (Pair r v)
  then show ?thesis
    by (cases r; cases "this_emit e' a' v") (auto simp: then_do_def split: option.splits)
qed

text \<open>The listener of \<open>close\<close>, by the events of the close.\<close>

lemma close_listener_publishes:
  "close_listener pid code reason wasClean w =
     (case publish_all (close_events code reason wasClean)
             (if authFailure code reason
              then log Err ''Authentication failed.''
                     (disconnect (log Warn ''WebSocket connection closed.'' w))
              else disconnect (log Warn ''WebSocket connection closed.'' w)) of
        (Some thrown, w3) \<Rightarrow> w3
      | (None, w3) \<Rightarrow>
          (if isConnecting w3
           then settle pid (Rejected (ClosedDuringConnect code reason)) (w3\<lparr>isConnecting := False\<rparr>)
           else w3))"
  by (simp add: close_listener_def Let_def close_events_def publish_all_pair
      publish_all_single [symmetric] del: publish_all.simps)















section \<open>Close events\<close>

lemma emitted_log [simp]: "emitted (log l m w) = emitted w"
  by (simp add: log_def)

lemma emitted_settle [simp]: "emitted (settle i r w) = emitted w"
  by (simp add: settle_def)

lemma emitted_ws_close [simp]: "emitted (ws_close i w) = emitted w"
  by (simp add: ws_close_def split: option.splits)

lemma emitted_disconnect [simp]: "emitted (disconnect w) = emitted w"
  by (simp add: disconnect_def split: option.splits)

lemma events_log [simp]: "events (log l m w) = events w"
  by (simp add: log_def)

lemma app_log [simp]: "app (log l m w) = app w"
  by (simp add: log_def)

lemma events_disconnect [simp]: "events (disconnect w) = events w"
  by (simp add: disconnect_def ws_close_def split: option.splits)

lemma app_disconnect [simp]: "app (disconnect w) = app w"
  by (simp add: disconnect_def ws_close_def split: option.splits)

text \<open>The record of a sequence of publications: every event up to the first whose
  listener throws, that event included.\<close>

lemma emitted_publish_all_complete:
  "fst (publish_all evs w) = None \<Longrightarrow> emitted (snd (publish_all evs w)) = emitted w @ evs"
proof (induction evs arbitrary: w)
  case Nil
  show ?case by simp
next
  case (Cons ev evs)
  obtain r v where a: "this_emit (fst ev) (snd ev) w = (r, v)"
    by (cases "this_emit (fst ev) (snd ev) w")
  have e: "emitted v = emitted w @ [ev]"
    using emitted_this_emit [of "fst ev" "snd ev" w] a by simp
  show ?case
  proof (cases r)
    case None
    with a Cons.prems have "fst (publish_all evs v) = None" by simp
    from Cons.IH [OF this] a None e show ?thesis by simp
  next
    case (Some thrown)
    with a Cons.prems show ?thesis by simp
  qed
qed

lemma emitted_publish_all_prefix:
  "\<exists>k. emitted (snd (publish_all evs w)) = emitted w @ take k evs"
proof (induction evs arbitrary: w)
  case Nil
  show ?case by simp
next
  case (Cons ev evs)
  obtain r v where a: "this_emit (fst ev) (snd ev) w = (r, v)"
    by (cases "this_emit (fst ev) (snd ev) w")
  have e: "emitted v = emitted w @ [ev]"
    using emitted_this_emit [of "fst ev" "snd ev" w] a by simp
  show ?case
  proof (cases r)
    case None
    from Cons.IH [of v] obtain k where "emitted (snd (publish_all evs v)) = emitted v @ take k evs"
      by blast
    with a None e have
      "emitted (snd (publish_all (ev # evs) w)) = emitted w @ take (Suc k) (ev # evs)" by simp
    then show ?thesis by blast
  next
    case (Some thrown)
    with a e have
      "emitted (snd (publish_all (ev # evs) w)) = emitted w @ take (Suc 0) (ev # evs)" by simp
    then show ?thesis by blast
  qed
qed

lemma emitted_publish_all_pair:
  "emitted (snd (publish_all [(e, a), (e', a')] w)) =
     emitted w @ (e, a) # (if fst (this_emit e a w) = None then [(e', a')] else [])"
proof -
  obtain r v where x: "this_emit e a w = (r, v)" by (cases "this_emit e a w")
  have ev: "emitted v = emitted w @ [(e, a)]" using emitted_this_emit [of e a w] x by simp
  obtain r' v' where y: "this_emit e' a' v = (r', v')" by (cases "this_emit e' a' v")
  have ev': "emitted v' = emitted v @ [(e', a')]" using emitted_this_emit [of e' a' v] y by simp
  show ?thesis using x y ev ev' by (cases r; cases r') simp_all
qed

lemma emitted_publish_all_single:
  "emitted (snd (publish_all [(e, a)] w)) = emitted w @ [(e, a)]"
proof -
  obtain r v where x: "this_emit e a w = (r, v)" by (cases "this_emit e a w")
  have ev: "emitted v = emitted w @ [(e, a)]" using emitted_this_emit [of e a w] x by simp
  show ?thesis using x ev by (cases r) simp_all
qed

lemma emitted_close_listener:
  "emitted (close_listener pid code reason wasClean w) =
     emitted (snd (publish_all (close_events code reason wasClean)
                     (if authFailure code reason
                      then log Err ''Authentication failed.''
                             (disconnect (log Warn ''WebSocket connection closed.'' w))
                      else disconnect (log Warn ''WebSocket connection closed.'' w))))"
proof -
  let ?v = "if authFailure code reason
            then log Err ''Authentication failed.''
                   (disconnect (log Warn ''WebSocket connection closed.'' w))
            else disconnect (log Warn ''WebSocket connection closed.'' w)"
  obtain r w3 where pa: "publish_all (close_events code reason wasClean) ?v = (r, w3)"
    by (cases "publish_all (close_events code reason wasClean) ?v")
  have "emitted (close_listener pid code reason wasClean w) = emitted w3"
    unfolding close_listener_publishes pa by (cases r) simp_all
  with pa show ?thesis by simp
qed

lemma close_listener_emits:
  "emitted (close_listener pid code reason wasClean w) =
     emitted w @
       (if authFailure code reason
        then (''auth_failed'', Text (AuthFailedMsg code reason)) #
             (if fst (this_emit ''auth_failed'' (Text (AuthFailedMsg code reason)) w) = None
              then [(''error'', Text (AuthFailedMsg code reason))] else [])
        else [(''disconnected'', disconnected_info code reason wasClean)])"
proof (cases "authFailure code reason")
  case True
  let ?v = "log Err ''Authentication failed.''
              (disconnect (log Warn ''WebSocket connection closed.'' w))"
  have h: "fst (this_emit ''auth_failed'' (Text (AuthFailedMsg code reason)) ?v) =
           fst (this_emit ''auth_failed'' (Text (AuthFailedMsg code reason)) w)"
    by (rule this_emit_hears) simp_all
  show ?thesis
    using True h
    by (simp add: emitted_close_listener close_events_def emitted_publish_all_pair
        del: publish_all.simps)
next
  case False
  then show ?thesis
    by (simp add: emitted_close_listener close_events_def emitted_publish_all_single
        del: publish_all.simps)
qed

text \<open>
  Claim C7, as the code has it. What the listener of \<open>close\<close> publishes: for the codes
  4001, 4003 and 1008, whatever the reason, \<open>auth_failed\<close>, and then \<open>error\<close> unless a
  listener of \<open>auth_failed\<close> has thrown, which ends the handler, and nothing else; for
  the code 1000, \<open>disconnected\<close> and nothing else when the reason does not match
  \<^verbatim>\<open>/auth|token|key/i\<close>, and \<open>auth_failed\<close>, then \<open>error\<close> under the same condition,
  when it does.
\<close>

theorem close_classification:
  "(code \<in> {4001, 4003, 1008} \<longrightarrow>
      emitted (close_listener pid code reason wasClean w) =
        emitted w @ (''auth_failed'', Text (AuthFailedMsg code reason)) #
          (if fst (this_emit ''auth_failed'' (Text (AuthFailedMsg code reason)) w) = None
           then [(''error'', Text (AuthFailedMsg code reason))] else [])) \<and>
   (\<not> auth_pattern reason \<longrightarrow>
      emitted (close_listener pid 1000 reason wasClean w) =
        emitted w @ [(''disconnected'',
                      Value (Some (JObj [(''code'', JNum 1000), (''reason'', JStr reason),
                                         (''wasClean'', JBool wasClean)])))]) \<and>
   (reason \<noteq> [] \<and> auth_pattern reason \<longrightarrow>
      emitted (close_listener pid 1000 reason wasClean w) =
        emitted w @ (''auth_failed'', Text (AuthFailedMsg 1000 reason)) #
          (if fst (this_emit ''auth_failed'' (Text (AuthFailedMsg 1000 reason)) w) = None
           then [(''error'', Text (AuthFailedMsg 1000 reason))] else []))"
  by (auto simp: close_listener_emits authFailure_def disconnected_info_def)

theorem close_classification_witness:
  "(4003::int) \<in> {4001, 4003, 1008} \<and>
   \<not> auth_pattern ''going away'' \<and> auth_pattern ''Token expired'' \<and>
   map fst (emitted (close_listener 0 4003 [] False handshake_done)) =
     [''setupComplete'', ''auth_failed'', ''error''] \<and>
   map fst (emitted (close_listener 0 4003 [] False guarded)) =
     [''setupComplete'', ''auth_failed''] \<and>
   map fst (emitted (close_listener 0 1000 ''going away'' True handshake_done)) =
     [''setupComplete'', ''disconnected''] \<and>
   map fst (emitted (close_listener 0 1000 ''Token expired'' True handshake_done)) =
     [''setupComplete'', ''auth_failed'', ''error'']"
proof -
  have g: "\<not> auth_pattern ''going away''" by code_simp
  have t: "auth_pattern ''Token expired''" by code_simp
  have e: "emitted handshake_done = [(''setupComplete'', NoArgs)]" by code_simp
  have e': "emitted guarded = [(''setupComplete'', NoArgs)]" by code_simp
  have q: "fst (this_emit ''auth_failed'' (Text (AuthFailedMsg 4003 [])) handshake_done) = None"
    by code_simp
  have q': "fst (this_emit ''auth_failed'' (Text (AuthFailedMsg 4003 [])) guarded) \<noteq> None"
    by code_simp
  have q'': "fst (this_emit ''auth_failed'' (Text (AuthFailedMsg 1000 ''Token expired''))
               handshake_done) = None"
    by code_simp
  from close_classification [of 4003 0 "[]" False handshake_done]
       close_classification [of 4003 0 "[]" False guarded]
       close_classification [of 4003 0 "''going away''" True handshake_done]
       close_classification [of 4003 0 "''Token expired''" True handshake_done]
       g t e e' q q' q''
  show ?thesis by simp
qed

text \<open>
  Claim C7 as the specification states it fails for the code 1000: a close with code
  1000 and the reason \<open>Token expired\<close> publishes \<open>auth_failed\<close> and \<open>error\<close>, and no
  \<open>disconnected\<close>.
\<close>

theorem clean_close_with_token_reason_is_auth_failure:
  "map fst (emitted (run scenario_platform
       [CallConnect, EvOpen 0, EvClose 0 1000 ''Token expired'' True] fresh_client)) =
     [''auth_failed'', ''error'']"
  by code_simp

section \<open>The parts of a model turn\<close>

lemma is_text_TextPart: "is_text (TextPart t) = Inr (t \<noteq> [])"
  by (simp add: is_text_def TextPart_def)

lemma is_audio_TextPart: "is_audio (TextPart t) = Inr False"
  by (simp add: is_audio_def TextPart_def)

lemma is_text_AudioPart: "is_text (AudioPart m x) = Inr False"
  by (simp add: is_text_def AudioPart_def)

lemma is_audio_AudioPart: "is_audio (AudioPart m x) = Inr (startsWith m ''audio/pcm'')"
  by (simp add: is_audio_def AudioPart_def)

lemma field_object: "field v k = Some x \<Longrightarrow> \<exists>kvs. v = JObj kvs"
  by (cases v) simp_all

text \<open>Publications in sequence.\<close>

lemma then_do_returned [simp]: "then_do (None, w) f = f w"
  by (simp add: then_do_def)

lemma then_do_assoc: "then_do (then_do r f) g = then_do r (\<lambda>v. then_do (f v) g)"
  by (cases r) (auto simp: then_do_def split: option.splits)

lemma publish_all_Cons:
  "publish_all (ev # evs) w = then_do (this_emit (fst ev) (snd ev) w) (publish_all evs)"
  by (simp add: then_do_def)

lemma forEach_text_Cons:
  "forEach_text (t # rest) w =
     then_do (this_emit ''text'' (Value (field t ''text'')) w) (forEach_text rest)"
  by (simp add: then_do_def)

lemma forEach_base64_Cons:
  "truthy b64 \<Longrightarrow> base64ToArrayBuffer p b64 = Inr data \<Longrightarrow>
   forEach_base64 p (b64 # rest) w =
     then_do (this_emit ''audio'' (Bytes data) w) (forEach_base64 p rest)"
  by (simp add: then_do_def)

lemma fst_then_do_log [simp]: "fst (then_do r (\<lambda>v. (None, g v))) = fst r"
  by (cases r) (auto simp: then_do_def split: option.splits)

lemma emitted_then_do_log [simp]:
  "emitted (snd (then_do r (\<lambda>v. (None, log l m v)))) = emitted (snd r)"
  by (cases r) (auto simp: then_do_def split: option.splits)

text \<open>The model turn with the parts text, audio, text, other.\<close>

lemma model_turn_four_parts:
  assumes "field mt ''parts'' = Some (JArr [TextPart a, AudioPart mime x, TextPart b, y])"
    and "a \<noteq> []" and "b \<noteq> []" and "x \<noteq> []"
    and "startsWith mime ''audio/pcm''"
    and "base64ToArrayBuffer p (Some (JStr x)) = Inr bytes"
    and "is_text y = Inr False" and "is_audio y = Inr False"
  shows "model_turn p (Some mt) w =
     then_do
       (publish_all
          [(''text'', Value (Some (JStr a))), (''text'', Value (Some (JStr b))),
           (''audio'', Bytes bytes), content_event [TextPart a, TextPart b, y]] w)
       (\<lambda>v. (None, log Debug ''sent:'' v))"
proof -
  from field_object [OF assms(1)] obtain kvs where o: "mt = JObj kvs" by blast
  have gp: "get_prop (Some mt) ''parts'' =
      Inr (Some (JArr [TextPart a, AudioPart mime x, TextPart b, y]))"
    using assms(1) o by simp
  have ya: "y \<noteq> AudioPart mime x"
    using assms(5,8) is_audio_AudioPart [of mime x] by auto
  have ta: "TextPart a \<noteq> AudioPart mime x" "TextPart b \<noteq> AudioPart mime x"
    by (simp_all add: TextPart_def AudioPart_def)
  have texts: "filter_js is_text [TextPart a, AudioPart mime x, TextPart b, y] =
      Inr [TextPart a, TextPart b]"
    using assms by (simp add: is_text_TextPart is_text_AudioPart)
  have audios: "filter_js is_audio [TextPart a, AudioPart mime x, TextPart b, y] =
      Inr [AudioPart mime x]"
    using assms by (simp add: is_audio_TextPart is_audio_AudioPart)
  have ft: "\<And>t. field (TextPart t) ''text'' = Some (JStr t)"
    by (simp add: TextPart_def)
  have data: "opt_chain (field (AudioPart mime x) ''inlineData'') ''data'' = Some (JStr x)"
    by (simp add: AudioPart_def)
  have tx: "truthy (Some (JStr x))" using assms(4) by simp
  have fe: "\<And>v. forEach_text [] v = (None, v)" "\<And>v. forEach_base64 p [] v = (None, v)"
    "\<And>v. publish_all [] v = (None, v)"
    by simp_all
  show ?thesis
    using ya ta
    by (simp add: model_turn_def or_throw_def gp as_array_def texts audios
        forEach_text_Cons forEach_base64_Cons [OF tx assms(6)] publish_all_Cons
        then_do_assoc data ft fe content_event_def
        del: filter_js.simps forEach_text.simps forEach_base64.simps publish_all.simps)
qed

text \<open>
  Claim C3, as the code has it, for a frame of server content whose model turn has the
  parts text \<open>a\<close>, audio \<open>x\<close>, text \<open>b\<close> and a part \<open>y\<close> that neither callback selects
  (\<open>a\<close>, \<open>b\<close> and \<open>x\<close> not empty, \<open>x\<close> decodable). When the frame is flagged
  \<^verbatim>\<open>interrupted\<close> the router publishes \<open>interrupted\<close> and nothing of the model turn.
  Otherwise it publishes, in this order, \<open>turn_complete\<close> when the frame is flagged
  \<^verbatim>\<open>turnComplete\<close>, \<open>text a\<close>, \<open>text b\<close>, one \<open>audio\<close> event with the decoded bytes of
  \<open>x\<close>, and one \<open>content\<close> event, up to the first of them for which a listener throws,
  which ends the handler: all of them when no listener throws, and the first so many of
  them in any case. The part list of the \<open>content\<close> event is the list of the parts that
  are not audio, in their order: it leaves the audio part out and holds the two text
  parts again, before \<open>y\<close>.
\<close>

theorem model_turn_content_keeps_text_parts:
  assumes "\<not> truthy (field r ''toolCall'')" and "\<not> truthy (field r ''setupComplete'')"
    and "\<not> truthy (field r ''toolCallCancellation'')"
    and "field r ''serverContent'' = Some sc"
    and "field sc ''modelTurn'' = Some mt"
    and "field mt ''parts'' = Some (JArr [TextPart a, AudioPart mime x, TextPart b, y])"
    and "a \<noteq> []" and "b \<noteq> []" and "x \<noteq> []"
    and "startsWith mime ''audio/pcm''"
    and "base64ToArrayBuffer p (Some (JStr x)) = Inr bytes"
    and "is_text y = Inr False" and "is_audio y = Inr False"
  shows
    "(truthy (field sc ''interrupted'') \<longrightarrow>
        receive_response p r w =
          this_emit ''interrupted'' NoArgs (log Debug ''is interrupted'' w) \<and>
        emitted (snd (receive_response p r w)) = emitted w @ [(''interrupted'', NoArgs)]) \<and>
     (\<not> truthy (field sc ''interrupted'') \<longrightarrow>
        receive_response p r w =
          then_do
            (publish_all
               (turn_complete_events sc @
                [(''text'', Value (Some (JStr a))), (''text'', Value (Some (JStr b))),
                 (''audio'', Bytes bytes), content_event [TextPart a, TextPart b, y]])
               (if truthy (field sc ''turnComplete'')
                then log Debug ''has completed its turn'' w else w))
            (\<lambda>v. (None, log Debug ''sent:'' v)) \<and>
        (fst (receive_response p r w) = None \<longrightarrow>
           emitted (snd (receive_response p r w)) =
             emitted w @ turn_complete_events sc @
               [(''text'', Value (Some (JStr a))), (''text'', Value (Some (JStr b))),
                (''audio'', Bytes bytes), content_event [TextPart a, TextPart b, y]]) \<and>
        (\<exists>k. emitted (snd (receive_response p r w)) =
           emitted w @
             take k (turn_complete_events sc @
               [(''text'', Value (Some (JStr a))), (''text'', Value (Some (JStr b))),
                (''audio'', Bytes bytes), content_event [TextPart a, TextPart b, y]])))"
proof -
  let ?four = "[(''text'', Value (Some (JStr a))), (''text'', Value (Some (JStr b))),
                (''audio'', Bytes bytes), content_event [TextPart a, TextPart b, y]]"
  let ?evs = "turn_complete_events sc @ ?four"
  let ?w0 = "if truthy (field sc ''turnComplete'')
             then log Debug ''has completed its turn'' w else w"
  from field_object [OF assms(4)] obtain kvs where ro: "r = JObj kvs" by blast
  from field_object [OF assms(5)] obtain kvs' where so: "sc = JObj kvs'" by blast
  from field_object [OF assms(6)] obtain kvs'' where mo: "mt = JObj kvs''" by blast
  have tc: "get_prop (Some r) ''toolCall'' = Inr (field r ''toolCall'')"
    using ro by simp
  have gs: "\<And>k. get_prop (Some sc) k = Inr (field sc k)" using so by simp
  have ts: "truthy (Some sc)" "truthy (Some mt)" using so mo by simp_all
  have rr: "receive_response p r w = server_content p (Some sc) w"
    using assms(1-4) ts(1) by (simp add: receive_response_def tc)
  note mt = model_turn_four_parts [OF assms(6-13)]
  have i: "truthy (field sc ''interrupted'') \<Longrightarrow>
      receive_response p r w = this_emit ''interrupted'' NoArgs (log Debug ''is interrupted'' w)"
    by (simp add: rr server_content_def or_throw_def gs)
  have n: "\<not> truthy (field sc ''interrupted'') \<Longrightarrow>
      receive_response p r w = then_do (publish_all ?evs ?w0) (\<lambda>v. (None, log Debug ''sent:'' v))"
    using assms(5) ts(2)
    by (simp add: rr server_content_def or_throw_def gs mt turn_complete_events_def
        publish_all_Cons [of "(''turn_complete'', NoArgs)"] then_do_assoc
        del: publish_all.simps)
  have e0: "emitted ?w0 = emitted w" by simp
  show ?thesis
  proof (cases "truthy (field sc ''interrupted'')")
    case True
    from i [OF True] show ?thesis using True by simp
  next
    case False
    note eq = n [OF False]
    have c: "fst (receive_response p r w) = None \<Longrightarrow>
        emitted (snd (receive_response p r w)) = emitted w @ ?evs"
      unfolding eq using emitted_publish_all_complete [of ?evs ?w0] e0 by simp
    have k: "\<exists>k. emitted (snd (receive_response p r w)) = emitted w @ take k ?evs"
      unfolding eq using emitted_publish_all_prefix [of ?evs ?w0] e0 by simp
    from eq c k False show ?thesis by blast
  qed
qed

theorem model_turn_content_keeps_text_parts_witness:
  "\<not> truthy (field four_part_frame ''toolCall'') \<and>
   \<not> truthy (field four_part_frame ''setupComplete'') \<and>
   \<not> truthy (field four_part_frame ''toolCallCancellation'') \<and>
   field four_part_frame ''serverContent'' =
     Some (JObj [(''modelTurn'',
                  JObj [(''parts'',
                         JArr [TextPart ''a'', AudioPart ''audio/pcm;rate=24000'' ''AAAA'',
                               TextPart ''b'', code_part])])]) \<and>
   startsWith ''audio/pcm;rate=24000'' ''audio/pcm'' \<and>
   base64ToArrayBuffer scenario_platform (Some (JStr ''AAAA'')) = Inr [] \<and>
   is_text code_part = Inr False \<and> is_audio code_part = Inr False \<and>
   fst (receive_response scenario_platform four_part_frame handshake_done) = None \<and>
   emitted (snd (receive_response scenario_platform four_part_frame handshake_done)) =
     emitted handshake_done @
       [(''text'', Value (Some (JStr ''a''))), (''text'', Value (Some (JStr ''b''))),
        (''audio'', Bytes []), content_event [TextPart ''a'', TextPart ''b'', code_part]] \<and>
   emitted (snd (receive_response scenario_platform
       (turn_frame True True
          [TextPart ''a'', AudioPart ''audio/pcm;rate=24000'' ''AAAA'', TextPart ''b'', code_part])
       handshake_done)) =
     emitted handshake_done @ [(''interrupted'', NoArgs)] \<and>
   emitted (snd (receive_response scenario_platform
       (turn_frame False True
          [TextPart ''a'', AudioPart ''audio/pcm;rate=24000'' ''AAAA'', TextPart ''b'', code_part])
       handshake_done)) =
     emitted handshake_done @
       [(''turn_complete'', NoArgs),
        (''text'', Value (Some (JStr ''a''))), (''text'', Value (Some (JStr ''b''))),
        (''audio'', Bytes []), content_event [TextPart ''a'', TextPart ''b'', code_part]] \<and>
   fst (receive_response scenario_platform four_part_frame text_guarded) =
     Some (Exception ''boom'') \<and>
   emitted (snd (receive_response scenario_platform four_part_frame text_guarded)) =
     [(''text'', Value (Some (JStr ''a'')))]"
proof -
  let ?ps = "[TextPart ''a'', AudioPart ''audio/pcm;rate=24000'' ''AAAA'', TextPart ''b'',
              code_part]"
  let ?mt = "JObj [(''parts'', JArr ?ps)]"
  let ?sc = "JObj [(''modelTurn'', ?mt)]"
  let ?sc' = "\<lambda>i c. JObj [(''interrupted'', JBool i), (''turnComplete'', JBool c),
                              (''modelTurn'', ?mt)]"
  let ?four = "[(''text'', Value (Some (JStr ''a''))), (''text'', Value (Some (JStr ''b''))),
                (''audio'', Bytes []), content_event [TextPart ''a'', TextPart ''b'', code_part]]"
  have h1: "\<not> truthy (field four_part_frame ''toolCall'')"
    and h2: "\<not> truthy (field four_part_frame ''setupComplete'')"
    and h3: "\<not> truthy (field four_part_frame ''toolCallCancellation'')"
    and h4: "field four_part_frame ''serverContent'' = Some ?sc"
    by (simp_all add: four_part_frame_def model_turn_frame_def)
  have g1: "\<And>i c. \<not> truthy (field (turn_frame i c ?ps) ''toolCall'')"
    and g2: "\<And>i c. \<not> truthy (field (turn_frame i c ?ps) ''setupComplete'')"
    and g3: "\<And>i c. \<not> truthy (field (turn_frame i c ?ps) ''toolCallCancellation'')"
    and g4: "\<And>i c. field (turn_frame i c ?ps) ''serverContent'' = Some (?sc' i c)"
    by (simp_all add: turn_frame_def)
  have h5: "field ?sc ''modelTurn'' = Some ?mt" by simp
  have g5: "\<And>i c. field (?sc' i c) ''modelTurn'' = Some ?mt" by simp
  have h6: "field ?mt ''parts'' = Some (JArr ?ps)" by simp
  have na: "''a'' \<noteq> []" and nb: "''b'' \<noteq> []" and nx: "''AAAA'' \<noteq> []" by simp_all
  have m: "startsWith ''audio/pcm;rate=24000'' ''audio/pcm''"
    by (simp add: startsWith_def)
  have d: "base64ToArrayBuffer scenario_platform (Some (JStr ''AAAA'')) = Inr []"
    by (simp add: scenario_platform_def)
  have t: "is_text code_part = Inr False"
    by (simp add: is_text_def code_part_def)
  have u: "is_audio code_part = Inr False"
    by (simp add: is_audio_def code_part_def)
  have f1: "fst (receive_response scenario_platform four_part_frame handshake_done) = None"
    by code_simp
  have f3: "fst (receive_response scenario_platform (turn_frame False True ?ps) handshake_done) =
      None"
    by code_simp
  have f4: "fst (receive_response scenario_platform four_part_frame text_guarded) =
      Some (Exception ''boom'')"
    by code_simp
  have e4: "emitted (snd (receive_response scenario_platform four_part_frame text_guarded)) =
      [(''text'', Value (Some (JStr ''a'')))]"
    by code_simp
  have i1: "\<not> truthy (field ?sc ''interrupted'')" and c1: "turn_complete_events ?sc = []"
    by (simp_all add: turn_complete_events_def)
  have i2: "truthy (field (?sc' True True) ''interrupted'')" by simp
  have i3: "\<not> truthy (field (?sc' False True) ''interrupted'')"
    and c3: "turn_complete_events (?sc' False True) = [(''turn_complete'', NoArgs)]"
    by (simp_all add: turn_complete_events_def)
  note t1 = model_turn_content_keeps_text_parts
      [where w = handshake_done, OF h1 h2 h3 h4 h5 h6 na nb nx m d t u]
  note t2 = model_turn_content_keeps_text_parts
      [where w = handshake_done, OF g1 g2 g3 g4 g5 h6 na nb nx m d t u, of True True]
  note t3 = model_turn_content_keeps_text_parts
      [where w = handshake_done, OF g1 g2 g3 g4 g5 h6 na nb nx m d t u, of False True]
  from t1 i1 f1 have
    "emitted (snd (receive_response scenario_platform four_part_frame handshake_done)) =
       emitted handshake_done @ turn_complete_events ?sc @ ?four"
    by blast
  then have e1: "emitted (snd (receive_response scenario_platform four_part_frame handshake_done)) =
       emitted handshake_done @ ?four"
    unfolding c1 by simp
  from t2 i2 have e2: "emitted (snd (receive_response scenario_platform
       (turn_frame True True ?ps) handshake_done)) =
     emitted handshake_done @ [(''interrupted'', NoArgs)]"
    by blast
  from t3 i3 f3 have
    "emitted (snd (receive_response scenario_platform (turn_frame False True ?ps) handshake_done)) =
       emitted handshake_done @ turn_complete_events (?sc' False True) @ ?four"
    by blast
  then have e3: "emitted (snd (receive_response scenario_platform
       (turn_frame False True ?ps) handshake_done)) =
       emitted handshake_done @ (''turn_complete'', NoArgs) # ?four"
    unfolding c3 by simp
  from h1 h2 h3 h4 m d t u f1 e1 e2 e3 f4 e4 show ?thesis by (intro conjI)
qed

text \<open>
  Claim C3 as the specification states it fails: for the four parts text, audio, text,
  other, no \<open>content\<close> event with the part list [other] is published; the published one
  holds the two text parts as well.
\<close>

theorem content_event_repeats_text_parts:
  "emitted (snd (receive_response scenario_platform four_part_frame handshake_done)) =
     emitted handshake_done @
       [(''text'', Value (Some (JStr ''a''))), (''text'', Value (Some (JStr ''b''))),
        (''audio'', Bytes []),
        content_event [TextPart ''a'', TextPart ''b'', code_part]] \<and>
   content_event [code_part] \<notin>
     set (emitted (snd (receive_response scenario_platform four_part_frame handshake_done)))"
  by code_simp

end
